theory Spec2Isabelle
  imports Complex_Main
begin

section \<open>Strings\<close>

text \<open>
  JavaScript strings are modelled as \<open>string\<close> (a list of \<open>char\<close>), every \<open>char\<close>
  standing for one code unit below 256. The string methods used by
  \<^verbatim>\<open>GCloudApiClient.ts\<close> are written out: \<^verbatim>\<open>startsWith\<close>, \<^verbatim>\<open>includes\<close>,
  \<^verbatim>\<open>toLowerCase\<close>, \<^verbatim>\<open>replace(/^gcloud\s+/, '')\<close>, \<^verbatim>\<open>split(/\s+/)\<close> and
  \<^verbatim>\<open>split(/\r?\n/).filter(Boolean)\<close>.
\<close>

fun startsWith :: "string \<Rightarrow> string \<Rightarrow> bool" where
  "startsWith s [] = True"
| "startsWith [] (p # ps) = False"
| "startsWith (c # s) (p # ps) = (c = p \<and> startsWith s ps)"

fun includes_str :: "string \<Rightarrow> string \<Rightarrow> bool" where
  "includes_str [] p = (p = [])"
| "includes_str (c # s) p = (startsWith (c # s) p \<or> includes_str s p)"

definition toLowerChar :: "char \<Rightarrow> char" where
  "toLowerChar c =
     (let n = (of_char c :: nat)
      in if (65 \<le> n \<and> n \<le> 90) \<or> (192 \<le> n \<and> n \<le> 222 \<and> n \<noteq> 215)
         then char_of (n + 32) else c)"

definition toLowerCase :: "string \<Rightarrow> string" where
  "toLowerCase s = map toLowerChar s"

text \<open>The class \<^verbatim>\<open>\s\<close> below code unit 256: tab, LF, VT, FF, CR, space, NBSP.\<close>

definition is_space :: "char \<Rightarrow> bool" where
  "is_space c = ((of_char c :: nat) \<in> {9, 10, 11, 12, 13, 32, 160})"

text \<open>\<^verbatim>\<open>s.replace(/^gcloud\s+/, '')\<close>: the match needs at least one white-space
  character after the word and is greedy.\<close>

definition strip_gcloud :: "string \<Rightarrow> string" where
  "strip_gcloud s =
     (if startsWith s ''gcloud'' \<and> (case drop 6 s of [] \<Rightarrow> False | c # _ \<Rightarrow> is_space c)
      then dropWhile is_space (drop 6 s) else s)"

text \<open>\<^verbatim>\<open>s.split(/\s+/)\<close>: \<open>inws\<close> says that the previous character was white
  space, \<open>cur\<close> is the current piece, reversed. A leading or trailing run of white space
  gives an empty piece, and the empty string gives one empty piece, as in JavaScript.\<close>

fun split_ws_aux :: "bool \<Rightarrow> string \<Rightarrow> string \<Rightarrow> string list" where
  "split_ws_aux inws cur [] = [rev cur]"
| "split_ws_aux inws cur (c # cs) =
     (if is_space c
      then (if inws then split_ws_aux True cur cs else rev cur # split_ws_aux True [] cs)
      else split_ws_aux False (c # cur) cs)"

definition split_ws :: "string \<Rightarrow> string list" where
  "split_ws s = split_ws_aux False [] s"

text \<open>\<^verbatim>\<open>data.toString().split(/\r?\n/).filter(Boolean)\<close>: the pieces between line
  ends, the empty ones dropped.\<close>

fun split_lines_aux :: "string \<Rightarrow> string \<Rightarrow> string list" where
  "split_lines_aux cur [] = [rev cur]"
| "split_lines_aux cur (c # cs) =
     (if c = CHR 0x0A then rev cur # split_lines_aux [] cs
      else if c = CHR 0x0D \<and> (case cs of [] \<Rightarrow> False | d # _ \<Rightarrow> d = CHR 0x0A)
      then rev cur # split_lines_aux [] (tl cs)
      else split_lines_aux (c # cur) cs)"

definition output_lines :: "string \<Rightarrow> string list" where
  "output_lines data = filter (\<lambda>l. l \<noteq> []) (split_lines_aux [] data)"

section \<open>Numbers\<close>

text \<open>
  A JavaScript number is a finite value, one of the two infinities, or \<^verbatim>\<open>NaN\<close>. A
  finite value is modelled by the real number it denotes, both zeros by 0. The client
  does two things with a number: it tests whether it is truthy (in \<^verbatim>\<open>a || b\<close>), and
  it prints it in a template literal. Printing belongs to the platform and is a
  parameter of the model (\<open>numberToString\<close> below).
\<close>

datatype jsnumber = JsNum real | JsInfinity | JsNegInfinity | JsNaN

fun truthy :: "jsnumber \<Rightarrow> bool" where
  "truthy (JsNum x) = (x \<noteq> 0)"
| "truthy JsInfinity = True"
| "truthy JsNegInfinity = True"
| "truthy JsNaN = False"

text \<open>\<^verbatim>\<open>a || b\<close> for an optional number \<open>a\<close>: \<open>b\<close> when \<open>a\<close> is undefined or falsy.\<close>

fun or_else :: "jsnumber option \<Rightarrow> jsnumber \<Rightarrow> jsnumber" where
  "or_else None b = b"
| "or_else (Some a) b = (if truthy a then a else b)"

section \<open>Data model (types.ts)\<close>

datatype ExecutionStatus = Pending | Running | Completed | Failed | Cancelled

text \<open>An optional field is an \<open>option\<close>; \<open>timeout\<close> is a number of milliseconds
  and \<open>environment\<close> is a list of key/value entries.\<close>

record GCloudCommand =
  command :: string
  args :: "string list"
  workingDirectory :: "string option"
  environment :: "(string \<times> string) list option"
  timeout :: "jsnumber option"
  requiresInteraction :: bool
  supportsJson :: bool

text \<open>Dates are points of a clock, counted as natural numbers. The exit code of a
  process is a number or \<^verbatim>\<open>null\<close>.\<close>

record CommandExecution =
  exec_id :: string
  exec_command :: GCloudCommand
  status :: ExecutionStatus
  startTime :: nat
  endTime :: "nat option"
  exitCode :: "int option"
  stdout :: "string list"
  stderr :: "string list"
  cancelled :: bool
  pid :: "nat option"

record GCloudError =
  message :: string
  err_exitCode :: "int option"
  err_stderr :: "string list option"
  authenticationRequired :: "bool option"
  suggestions :: "string list option"

text \<open>\<^verbatim>\<open>new GCloudError(msg)\<close>: every optional argument is left undefined.\<close>

definition plain_error :: "string \<Rightarrow> GCloudError" where
  "plain_error msg =
     \<lparr>message = msg, err_exitCode = None, err_stderr = None,
      authenticationRequired = None, suggestions = None\<rparr>"

section \<open>The collaborators of the client\<close>

text \<open>The \<^verbatim>\<open>gcloud\<close> entry of the global configuration, as far as the client reads it.
  A missing \<^verbatim>\<open>preferJsonOutput\<close> is falsy.\<close>

record GCloudConfig =
  preferJsonOutput :: bool
  defaultTimeout :: "jsnumber option"

text \<open>What \<^verbatim>\<open>spawn('gcloud', args, spawnOptions)\<close> is called with.\<close>

record spawn_request =
  spawn_file :: string
  spawn_args :: "string list"
  cwd :: "string option"
  env :: "(string \<times> string) list"
  shell :: bool

text \<open>The calls the client makes to the operating system before and at the spawn, in
  the order it makes them.\<close>

datatype effect =
    VersionCheck
  | ExistsSync string
  | Spawn spawn_request

text \<open>What happens to a running execution: a chunk of output on a stream, the \<^verbatim>\<open>close\<close>
  and \<^verbatim>\<open>error\<close> events of the child process, the expiry of the timer, and a call of
  \<^verbatim>\<open>cancelExecution\<close> on the execution record (with whether \<^verbatim>\<open>process.kill\<close>
  succeeds there). Every event comes with the time at which its handler runs.\<close>

datatype event =
    StdoutData string
  | StderrData string
  | Close "int option"
  | ProcError string
  | TimeoutFired
  | CancelCall bool

text \<open>Everything outside the client that one call of \<^verbatim>\<open>executeCommand\<close> depends on.
  \<open>spawn_result\<close> is \<open>Inl msg\<close> when \<^verbatim>\<open>spawn\<close> throws, and the pid of the child
  (possibly undefined) otherwise. \<open>numberToString\<close> is how the platform prints a
  number in a template literal.\<close>

record world =
  gcloudAvailable :: bool
  existing_paths :: "string list"
  config :: GCloudConfig
  process_env :: "(string \<times> string) list"
  randomUUID :: string
  clock :: nat
  spawn_result :: "string + nat option"
  numberToString :: "jsnumber \<Rightarrow> string"
  events :: "(nat \<times> event) list"

section \<open>GCloudApiClient.ts\<close>

subsection \<open>checkForAuthError\<close>

definition authErrorPatterns :: "string list" where
  "authErrorPatterns =
     [''not authorized'', ''not authenticated'', ''authentication required'',
      ''please run'', ''gcloud auth login'', ''credentials not found'', ''no credentials'']"

definition checkForAuthError :: "string list \<Rightarrow> bool" where
  "checkForAuthError lines =
     list_ex (\<lambda>line. list_ex (\<lambda>pattern. includes_str (toLowerCase line) pattern)
                authErrorPatterns) lines"

definition login_suggestions :: "string list" where
  \<open>login_suggestions =
     [''Run "gcloud auth login" to authenticate'',
      ''Run "gcloud auth application-default login" for application default credentials'']\<close>

definition auth_error :: "int option \<Rightarrow> string list \<Rightarrow> GCloudError" where
  "auth_error code lines =
     \<lparr>message = ''Authentication required'', err_exitCode = code, err_stderr = Some lines,
      authenticationRequired = Some True, suggestions = Some login_suggestions\<rparr>"

subsection \<open>cancelExecution\<close>

text \<open>\<open>killOk\<close> says whether \<^verbatim>\<open>process.kill(pid, 'SIGTERM')\<close> returns; when it throws,
  the error is logged and the record is left alone. \<^verbatim>\<open>!execution.pid\<close> holds for an
  undefined pid and for 0.\<close>

definition cancelExecution :: "nat \<Rightarrow> bool \<Rightarrow> CommandExecution \<Rightarrow> bool \<times> CommandExecution" where
  "cancelExecution now killOk e =
     (if status e \<noteq> Running \<or> pid e = None \<or> pid e = Some 0 then (False, e)
      else if killOk
        then (True, e\<lparr>cancelled := True, status := Cancelled, endTime := Some now\<rparr>)
        else (False, e))"

subsection \<open>runCommand\<close>

text \<open>The argument list: the command string without its leading word, split at white
  space, and \<^verbatim>\<open>--format=json\<close> pushed when the command supports JSON, JSON is preferred
  or asked for in \<open>args\<close>, and no piece starts with \<^verbatim>\<open>--format=\<close>.\<close>

definition applyJsonFormat :: "GCloudConfig \<Rightarrow> GCloudCommand \<Rightarrow> string list \<Rightarrow> string list" where
  "applyJsonFormat cfg c as =
     (if supportsJson c \<and> (preferJsonOutput cfg \<or> ''--format=json'' \<in> set (args c))
      then (if \<not> list_ex (\<lambda>arg. startsWith arg ''--format='') as
            then as @ [''--format=json''] else as)
      else as)"

definition parse_args :: "GCloudCommand \<Rightarrow> string list" where
  "parse_args c = split_ws (strip_gcloud (command c))"

definition spawn_request_of :: "world \<Rightarrow> GCloudCommand \<Rightarrow> spawn_request" where
  "spawn_request_of w c =
     \<lparr>spawn_file = ''gcloud'',
      spawn_args = applyJsonFormat (config w) c (parse_args c),
      cwd = workingDirectory c,
      env = (case environment c of None \<Rightarrow> [] | Some kv \<Rightarrow> kv) @ process_env w,
      shell = True\<rparr>"

text \<open>\<^verbatim>\<open>command.timeout || config.defaultTimeout || DEFAULT_TIMEOUT\<close>\<close>

definition DEFAULT_TIMEOUT :: jsnumber where
  "DEFAULT_TIMEOUT = JsNum 300000"

definition effective_timeout :: "GCloudConfig \<Rightarrow> GCloudCommand \<Rightarrow> jsnumber" where
  "effective_timeout cfg c =
     or_else (timeout c) (or_else (defaultTimeout cfg) DEFAULT_TIMEOUT)"

text \<open>The state of the promise executor after the spawn: the execution record that the
  handlers mutate, whether the timer is still set, how the promise was settled (\<open>Inl\<close>
  for \<^verbatim>\<open>reject\<close>, \<open>Inr\<close> for \<^verbatim>\<open>resolve\<close>, with the record as it was then), and the
  number of \<^verbatim>\<open>SIGTERM\<close> signals sent. Only the \<^verbatim>\<open>close\<close> handler resolves, and a
  process emits nothing after \<^verbatim>\<open>close\<close>, so the record as it was then is the record
  the caller holds.\<close>

record run_state =
  exec :: CommandExecution
  timerArmed :: bool
  settled :: "(GCloudError + CommandExecution) option"
  kills :: nat

text \<open>\<^verbatim>\<open>resolve\<close> and \<^verbatim>\<open>reject\<close> settle a promise once; later calls do nothing.\<close>

definition settle :: "GCloudError + CommandExecution \<Rightarrow> run_state \<Rightarrow> run_state" where
  "settle r s = (case settled s of None \<Rightarrow> s\<lparr>settled := Some r\<rparr> | Some _ \<Rightarrow> s)"

text \<open>The error of the timer, \<^verbatim>\<open>Command timed out after ${timeout}ms\<close>, given the
  time-out as the platform prints it.\<close>

definition timeout_error :: "string \<Rightarrow> GCloudError" where
  "timeout_error shown = plain_error (''Command timed out after '' @ shown @ ''ms'')"

text \<open>One handler run. \<open>shown\<close> is the time-out the timer was set with, as the
  platform prints it.\<close>

fun step :: "string \<Rightarrow> run_state \<Rightarrow> nat \<times> event \<Rightarrow> run_state" where
  "step shown s (now, StdoutData d) =
     s\<lparr>exec := (exec s)\<lparr>stdout := stdout (exec s) @ output_lines d\<rparr>\<rparr>"
| "step shown s (now, StderrData d) =
     s\<lparr>exec := (exec s)\<lparr>stderr := stderr (exec s) @ output_lines d\<rparr>\<rparr>"
| "step shown s (now, TimeoutFired) =
     (if timerArmed s
      then settle (Inl (timeout_error shown))
             (s\<lparr>exec := (exec s)\<lparr>status := Failed\<rparr>, timerArmed := False,
                kills := (case pid (exec s) of
                            None \<Rightarrow> kills s
                          | Some p \<Rightarrow> if p = 0 then kills s else Suc (kills s))\<rparr>)
      else s)"
| "step shown s (now, Close code) =
     (let e1 = (exec s)\<lparr>endTime := Some now,
                         exitCode := Some (case code of None \<Rightarrow> 0 | Some n \<Rightarrow> n)\<rparr>;
          s1 = s\<lparr>timerArmed := False\<rparr>
      in if cancelled e1
         then settle (Inr (e1\<lparr>status := Cancelled\<rparr>)) (s1\<lparr>exec := e1\<lparr>status := Cancelled\<rparr>\<rparr>)
         else if code = Some 0
         then settle (Inr (e1\<lparr>status := Completed\<rparr>)) (s1\<lparr>exec := e1\<lparr>status := Completed\<rparr>\<rparr>)
         else if checkForAuthError (stderr e1)
         then settle (Inl (auth_error code (stderr e1))) (s1\<lparr>exec := e1\<lparr>status := Failed\<rparr>\<rparr>)
         else settle (Inr (e1\<lparr>status := Failed\<rparr>)) (s1\<lparr>exec := e1\<lparr>status := Failed\<rparr>\<rparr>))"
| "step shown s (now, ProcError msg) =
     settle (Inl (plain_error (''Process error: '' @ msg)))
       (s\<lparr>exec := (exec s)\<lparr>status := Failed, endTime := Some now\<rparr>, timerArmed := False\<rparr>)"
| "step shown s (now, CancelCall killOk) =
     (let r = cancelExecution now killOk (exec s)
      in s\<lparr>exec := snd r,
           kills := (if status (exec s) \<noteq> Running \<or> pid (exec s) = None \<or> pid (exec s) = Some 0
                     then kills s else Suc (kills s))\<rparr>)"

definition run_events :: "string \<Rightarrow> run_state \<Rightarrow> (nat \<times> event) list \<Rightarrow> run_state" where
  "run_events shown s evs = foldl (step shown) s evs"

text \<open>The state right after \<^verbatim>\<open>spawn\<close> returned: pid recorded, status \<open>Running\<close>, timer
  set, promise pending.\<close>

definition spawned :: "CommandExecution \<Rightarrow> nat option \<Rightarrow> run_state" where
  "spawned e p =
     \<lparr>exec = e\<lparr>pid := p, status := Running\<rparr>, timerArmed = True, settled = None, kills = 0\<rparr>"

text \<open>The promise of \<^verbatim>\<open>runCommand\<close>: \<open>None\<close> while it is pending, which is where it
  stays when the events never settle it. A \<^verbatim>\<open>spawn\<close> that throws lands in the \<^verbatim>\<open>catch\<close>
  of the executor.\<close>

definition runCommand :: "world \<Rightarrow> CommandExecution \<Rightarrow> (GCloudError + CommandExecution) option" where
  "runCommand w e =
     (case spawn_result w of
        Inl msg \<Rightarrow> Some (Inl (plain_error (''Failed to start command: '' @ msg)))
      | Inr p \<Rightarrow>
          settled (run_events (numberToString w (effective_timeout (config w) (exec_command e)))
                     (spawned e p) (events w)))"

subsection \<open>executeCommand\<close>

definition new_execution :: "world \<Rightarrow> GCloudCommand \<Rightarrow> CommandExecution" where
  "new_execution w c =
     \<lparr>exec_id = randomUUID w, exec_command = c, status = Pending, startTime = clock w,
      endTime = None, exitCode = None, stdout = [], stderr = [], cancelled = False,
      pid = None\<rparr>"

definition sdk_not_found :: GCloudError where
  "sdk_not_found =
     \<lparr>message = ''Google Cloud SDK not found. Please install it from https://cloud.google.com/sdk/docs/install'',
      err_exitCode = None, err_stderr = None, authenticationRequired = Some False,
      suggestions = Some [''Install Google Cloud SDK'', ''Add gcloud to your PATH'']\<rparr>"

text \<open>\<^verbatim>\<open>command.workingDirectory && !existsSync(command.workingDirectory)\<close>: the
  directory is looked up only when it is given and not the empty string.\<close>

definition directory_to_check :: "GCloudCommand \<Rightarrow> string option" where
  "directory_to_check c =
     (case workingDirectory c of None \<Rightarrow> None | Some d \<Rightarrow> if d = [] then None else Some d)"

definition existsSync :: "world \<Rightarrow> string \<Rightarrow> bool" where
  "existsSync w p = (p \<in> set (existing_paths w))"

text \<open>The result is the list of calls made to the operating system and the promise:
  \<open>Some (Inl err)\<close> when \<^verbatim>\<open>executeCommand\<close> throws \<open>err\<close>, \<open>Some (Inr e)\<close> when it
  returns the record \<open>e\<close>, \<open>None\<close> when it never settles. Every rejection of
  \<^verbatim>\<open>runCommand\<close> is a \<^verbatim>\<open>GCloudError\<close>, which the \<^verbatim>\<open>catch\<close> throws on as it is.\<close>

definition executeCommand ::
  "world \<Rightarrow> GCloudCommand \<Rightarrow> effect list \<times> (GCloudError + CommandExecution) option" where
  \<open>executeCommand w c =
     (if \<not> startsWith (command c) ''gcloud ''
      then ([], Some (Inl (plain_error ''Command must start with "gcloud"'')))
      else if \<not> gcloudAvailable w
      then ([VersionCheck], Some (Inl sdk_not_found))
      else (case directory_to_check c of
              None \<Rightarrow>
                ([VersionCheck, Spawn (spawn_request_of w c)],
                 runCommand w (new_execution w c))
            | Some d \<Rightarrow>
                if \<not> existsSync w d
                then ([VersionCheck, ExistsSync d],
                      Some (Inl (plain_error (''Working directory does not exist: '' @ d))))
                else ([VersionCheck, ExistsSync d, Spawn (spawn_request_of w c)],
                      runCommand w (new_execution w c))))\<close>

subsection \<open>getAuthenticationStatus\<close>

text \<open>The values \<^verbatim>\<open>JSON.parse\<close> returns. An object is the list of its entries, every
  key once; the probe never looks into a number, which is kept as an integer. The
  parser itself belongs to the platform and is a parameter of the probe:
  \<open>parse s = None\<close> when \<^verbatim>\<open>JSON.parse(s)\<close> throws.\<close>

datatype json =
    JNull
  | JBool bool
  | JNumber int
  | JString string
  | JArray "json list"
  | JObject "(string \<times> json) list"

text \<open>What the \<^verbatim>\<open>try\<close> block of the probe can throw: the error of a command, or a
  \<^verbatim>\<open>TypeError\<close> of the language.\<close>

datatype exn = Thrown GCloudError | TypeError

text \<open>\<^verbatim>\<open>v.k\<close> for \<open>k\<close> one of \<^verbatim>\<open>status\<close> and \<^verbatim>\<open>account\<close>: a \<^verbatim>\<open>TypeError\<close> on
  \<^verbatim>\<open>null\<close>, the entry of an object, and undefined (\<open>None\<close>) on every other value.\<close>

fun get_prop :: "json \<Rightarrow> string \<Rightarrow> exn + json option" where
  "get_prop JNull k = Inl TypeError"
| "get_prop (JObject kvs) k = Inr (map_of kvs k)"
| "get_prop (JBool b) k = Inr None"
| "get_prop (JNumber n) k = Inr None"
| "get_prop (JString s) k = Inr None"
| "get_prop (JArray xs) k = Inr None"

text \<open>\<^verbatim>\<open>accounts.find(acc => acc.status === 'ACTIVE')\<close>\<close>

fun find_active :: "json list \<Rightarrow> exn + json option" where
  "find_active [] = Inr None"
| "find_active (acc # rest) =
     (case get_prop acc ''status'' of
        Inl e \<Rightarrow> Inl e
      | Inr v \<Rightarrow> if v = Some (JString ''ACTIVE'') then Inr (Some acc) else find_active rest)"

text \<open>\<^verbatim>\<open>accounts.map(acc => acc.account)\<close>\<close>

fun map_account :: "json list \<Rightarrow> exn + json option list" where
  "map_account [] = Inr []"
| "map_account (acc # rest) =
     (case get_prop acc ''account'' of
        Inl e \<Rightarrow> Inl e
      | Inr v \<Rightarrow> (case map_account rest of Inl e \<Rightarrow> Inl e | Inr vs \<Rightarrow> Inr (v # vs)))"

record AuthenticationStatus =
  isAuthenticated :: bool
  activeAccount :: "json option"
  availableAccounts :: "json option list"
  defaultProject :: "json option"
  lastChecked :: nat

definition not_authenticated :: "nat \<Rightarrow> AuthenticationStatus" where
  "not_authenticated now =
     \<lparr>isAuthenticated = False, activeAccount = None, availableAccounts = [],
      defaultProject = None, lastChecked = now\<rparr>"

definition auth_list_command :: GCloudCommand where
  "auth_list_command =
     \<lparr>command = ''gcloud auth list --format=json'',
      args = [''auth'', ''list'', ''--format=json''],
      workingDirectory = None, environment = None, timeout = None,
      requiresInteraction = False, supportsJson = True\<rparr>"

definition project_command :: GCloudCommand where
  "project_command =
     \<lparr>command = ''gcloud config get-value project --format=json'',
      args = [''config'', ''get-value'', ''project'', ''--format=json''],
      workingDirectory = None, environment = None, timeout = None,
      requiresInteraction = False, supportsJson = True\<rparr>"

text \<open>The default project read from the second execution: undefined unless the
  execution completed and its output parses, and undefined for \<^verbatim>\<open>'(unset)'\<close>.\<close>

definition read_project :: "(string \<Rightarrow> json option) \<Rightarrow> CommandExecution \<Rightarrow> json option" where
  "read_project parse pe =
     (if status pe = Completed
      then (case parse (concat (stdout pe)) of
              None \<Rightarrow> None
            | Some v \<Rightarrow> if v = JString ''(unset)'' then None else Some v)
      else None)"

text \<open>The body of the \<^verbatim>\<open>try\<close> block. \<open>w1\<close> and \<open>w2\<close> are the worlds the two commands
  run in, \<open>now\<close> the time of the probe. \<open>None\<close>: a command never settles.\<close>

definition probe_body ::
  "(string \<Rightarrow> json option) \<Rightarrow> nat \<Rightarrow> world \<Rightarrow> world \<Rightarrow> (exn + AuthenticationStatus) option" where
  "probe_body parse now w1 w2 =
     (case snd (executeCommand w1 auth_list_command) of
        None \<Rightarrow> None
      | Some (Inl err) \<Rightarrow> Some (Inl (Thrown err))
      | Some (Inr execution) \<Rightarrow>
          if status execution \<noteq> Completed then Some (Inr (not_authenticated now))
          else (case parse (concat (stdout execution)) of
                  None \<Rightarrow> Some (Inr (not_authenticated now))
                | Some (JArray accounts) \<Rightarrow>
                    (case find_active accounts of
                       Inl e \<Rightarrow> Some (Inl e)
                     | Inr found \<Rightarrow>
                        (case (case found of None \<Rightarrow> Inr None
                                | Some acc \<Rightarrow> get_prop acc ''account'') of
                           Inl e \<Rightarrow> Some (Inl e)
                         | Inr active \<Rightarrow>
                            (case snd (executeCommand w2 project_command) of
                               None \<Rightarrow> None
                             | Some (Inl err) \<Rightarrow> Some (Inl (Thrown err))
                             | Some (Inr projectExecution) \<Rightarrow>
                                (case map_account accounts of
                                   Inl e \<Rightarrow> Some (Inl e)
                                 | Inr available \<Rightarrow>
                                     Some (Inr \<lparr>isAuthenticated = (accounts \<noteq> []),
                                                activeAccount = active,
                                                availableAccounts = available,
                                                defaultProject = read_project parse projectExecution,
                                                lastChecked = now\<rparr>)))))
                | Some _ \<Rightarrow> Some (Inl TypeError)))"

text \<open>The \<^verbatim>\<open>catch\<close> of the probe turns whatever was thrown into the snapshot.\<close>

definition getAuthenticationStatus ::
  "(string \<Rightarrow> json option) \<Rightarrow> nat \<Rightarrow> world \<Rightarrow> world \<Rightarrow> (exn + AuthenticationStatus) option" where
  "getAuthenticationStatus parse now w1 w2 =
     (case probe_body parse now w1 w2 of
        None \<Rightarrow> None
      | Some (Inl e) \<Rightarrow> Some (Inr (not_authenticated now))
      | Some (Inr st) \<Rightarrow> Some (Inr st))"

section \<open>Notions used in the statements\<close>

definition is_terminal :: "ExecutionStatus \<Rightarrow> bool" where
  "is_terminal st = (st = Completed \<or> st = Failed \<or> st = Cancelled)"

text \<open>The events that only deliver output, and the lines a list of events
  delivers on each stream.\<close>

fun is_output :: "event \<Rightarrow> bool" where
  "is_output (StdoutData d) = True"
| "is_output (StderrData d) = True"
| "is_output (Close code) = False"
| "is_output (ProcError msg) = False"
| "is_output TimeoutFired = False"
| "is_output (CancelCall k) = False"

definition output_only :: "(nat \<times> event) list \<Rightarrow> bool" where
  "output_only evs = list_all (\<lambda>te. is_output (snd te)) evs"

fun stdout_of :: "event \<Rightarrow> string list" where
  "stdout_of (StdoutData d) = output_lines d"
| "stdout_of (StderrData d) = []"
| "stdout_of (Close code) = []"
| "stdout_of (ProcError msg) = []"
| "stdout_of TimeoutFired = []"
| "stdout_of (CancelCall k) = []"

fun stderr_of :: "event \<Rightarrow> string list" where
  "stderr_of (StderrData d) = output_lines d"
| "stderr_of (StdoutData d) = []"
| "stderr_of (Close code) = []"
| "stderr_of (ProcError msg) = []"
| "stderr_of TimeoutFired = []"
| "stderr_of (CancelCall k) = []"

definition captured_stdout :: "(nat \<times> event) list \<Rightarrow> string list" where
  "captured_stdout evs = concat (map (\<lambda>te. stdout_of (snd te)) evs)"

definition captured_stderr :: "(nat \<times> event) list \<Rightarrow> string list" where
  "captured_stderr evs = concat (map (\<lambda>te. stderr_of (snd te)) evs)"

text \<open>The record that a \<^verbatim>\<open>close\<close> with exit code \<open>code\<close> at time \<open>now\<close> leaves of an
  execution \<open>e\<close> that was spawned with pid \<open>p\<close>, was not cancelled, and received the
  output events \<open>pre\<close>.\<close>

definition closed_record ::
  "CommandExecution \<Rightarrow> nat option \<Rightarrow> (nat \<times> event) list \<Rightarrow> nat \<Rightarrow> int option \<Rightarrow> CommandExecution" where
  "closed_record e p pre now code =
     e\<lparr>pid := p,
       status := (if code = Some 0 then Completed else Failed),
       endTime := Some now,
       exitCode := Some (case code of None \<Rightarrow> 0 | Some n \<Rightarrow> n),
       stdout := stdout e @ captured_stdout pre,
       stderr := stderr e @ captured_stderr pre\<rparr>"

text \<open>The \<^verbatim>\<open>close\<close> event of a process that exited with code 0.\<close>

fun clean_close :: "event \<Rightarrow> bool" where
  "clean_close (Close code) = (code = Some 0)"
| "clean_close (StdoutData d) = False"
| "clean_close (StderrData d) = False"
| "clean_close (ProcError msg) = False"
| "clean_close TimeoutFired = False"
| "clean_close (CancelCall k) = False"

text \<open>The entry \<open>k\<close> of a parsed object; undefined (\<open>None\<close>) when the entry is
  missing and on every value that is not an object.\<close>

fun prop_of :: "json \<Rightarrow> string \<Rightarrow> json option" where
  "prop_of (JObject kvs) k = map_of kvs k"
| "prop_of JNull k = None"
| "prop_of (JBool b) k = None"
| "prop_of (JNumber n) k = None"
| "prop_of (JString s) k = None"
| "prop_of (JArray xs) k = None"

text \<open>The spawn among the calls to the operating system, and the arguments that ask
  for an output format.\<close>

fun is_spawn :: "effect \<Rightarrow> bool" where
  "is_spawn (Spawn r) = True"
| "is_spawn VersionCheck = False"
| "is_spawn (ExistsSync p) = False"

definition is_format_flag :: "string \<Rightarrow> bool" where
  "is_format_flag arg = startsWith arg ''--format=''"

section \<open>Example inputs\<close>

text \<open>A stand-in for the printer of the platform on the two numbers that the
  examples print, the time-out 10 and the default 300000, which JavaScript prints in
  plain digits.\<close>

definition example_numberToString :: "jsnumber \<Rightarrow> string" where
  "example_numberToString x =
     (if x = JsNum 10 then ''10'' else if x = JsNum 300000 then ''300000'' else [])"

text \<open>A machine with the SDK, a configuration that does not prefer JSON, a command
  with a time-out of 10 ms, the execution of that command right after the spawn, and a
  record of it that completed.\<close>

definition example_world :: world where
  "example_world =
     \<lparr>gcloudAvailable = True, existing_paths = [],
      config = \<lparr>preferJsonOutput = False, defaultTimeout = None\<rparr>,
      process_env = [], randomUUID = ''u-1'', clock = 0, spawn_result = Inr (Some 7),
      numberToString = example_numberToString, events = []\<rparr>"

definition example_command :: GCloudCommand where
  "example_command =
     \<lparr>command = ''gcloud projects list'', args = [''projects'', ''list''],
      workingDirectory = None, environment = None, timeout = Some (JsNum 10),
      requiresInteraction = False, supportsJson = True\<rparr>"

definition example_running :: run_state where
  "example_running = spawned (new_execution example_world example_command) (Some 7)"

definition example_completed :: CommandExecution where
  "example_completed =
     (new_execution example_world example_command)
       \<lparr>status := Completed, endTime := Some 4, exitCode := Some 0, pid := Some 7\<rparr>"

text \<open>A machine without the SDK, and a command with a working directory that does
  not exist.\<close>

definition no_sdk_world :: world where
  "no_sdk_world = example_world\<lparr>gcloudAvailable := False\<rparr>"

definition missing_dir_command :: GCloudCommand where
  "missing_dir_command = example_command\<lparr>workingDirectory := Some ''/does/not/exist''\<rparr>"

text \<open>Three runs of the example command: the timer expires while the command is
  still writing; the command exits with code 1 and an error that has nothing to do with
  credentials; the command exits with code 1 saying that it is not authenticated.\<close>

definition timeout_world :: world where
  "timeout_world =
     example_world\<lparr>events := [(2, StdoutData ''Listing''), (10, TimeoutFired), (11, Close None)]\<rparr>"

definition failing_world :: world where
  "failing_world =
     example_world\<lparr>events := [(3, StderrData ''ERROR: boom''), (4, Close (Some 1))]\<rparr>"

definition unauthenticated_world :: world where
  "unauthenticated_world =
     example_world\<lparr>events := [(3, StderrData ''ERROR: Not Authenticated''), (4, Close (Some 1))]\<rparr>"

text \<open>The example execution after the stderr line of the third run arrived.\<close>

definition unauthenticated_running :: run_state where
  "unauthenticated_running =
     step ''10'' example_running (3, StderrData ''ERROR: Not Authenticated'')"

text \<open>The timer expires and the process, told to terminate, exits with code 0.\<close>

definition race_events :: "(nat \<times> event) list" where
  "race_events = [(10, TimeoutFired), (11, Close (Some 0))]"

text \<open>A command string that carries a shell operator.\<close>

definition injection_command :: GCloudCommand where
  "injection_command = example_command\<lparr>command := ''gcloud version; echo pwned''\<rparr>"

text \<open>For the probe: the output of \<^verbatim>\<open>gcloud auth list --format=json\<close> with one active
  account; a parser that knows this text, the text \<^verbatim>\<open>null\<close> and the text
  \<^verbatim>\<open>[null]\<close>, and rejects every other (as \<^verbatim>\<open>JSON.parse\<close> rejects the empty text);
  and three worlds in which the command prints one of the texts and exits with code 0.\<close>

definition accounts_json :: string where
  \<open>accounts_json = ''[{"account":"dev@example.com","status":"ACTIVE"}]''\<close>

definition example_parse :: "string \<Rightarrow> json option" where
  "example_parse s =
     (if s = accounts_json
      then Some (JArray [JObject [(''account'', JString ''dev@example.com''),
                                  (''status'', JString ''ACTIVE'')]])
      else if s = ''null'' then Some JNull
      else if s = ''[null]'' then Some (JArray [JNull])
      else None)"

definition accounts_world :: world where
  "accounts_world =
     example_world\<lparr>events := [(3, StdoutData accounts_json), (4, Close (Some 0))]\<rparr>"

definition null_world :: world where
  "null_world = example_world\<lparr>events := [(3, StdoutData ''null''), (4, Close (Some 0))]\<rparr>"

definition null_entry_world :: world where
  "null_entry_world =
     example_world\<lparr>events := [(3, StdoutData ''[null]''), (4, Close (Some 0))]\<rparr>"

section \<open>Facts about the handlers\<close>

lemma settled_settle: "settled (settle r s) = (case settled s of None \<Rightarrow> Some r | Some x \<Rightarrow> Some x)"
  by (simp add: settle_def split: option.splits)

lemma exec_settle: "exec (settle r s) = exec s"
  by (simp add: settle_def split: option.splits)

lemma timerArmed_settle: "timerArmed (settle r s) = timerArmed s"
  by (simp add: settle_def split: option.splits)

lemma kills_settle: "kills (settle r s) = kills s"
  by (simp add: settle_def split: option.splits)

lemma step_settled: "settled s = Some r \<Longrightarrow> settled (step shown s ev) = Some r"
proof (cases ev)
  case (Pair now e)
  assume "settled s = Some r"
  then show ?thesis unfolding Pair
    by (cases e) (simp_all add: settled_settle Let_def)
qed

lemma run_events_Nil: "run_events shown s [] = s"
  by (simp add: run_events_def)

lemma run_events_Cons: "run_events shown s (ev # evs) = run_events shown (step shown s ev) evs"
  by (simp add: run_events_def)

lemma run_events_append: "run_events shown s (xs @ ys) = run_events shown (run_events shown s xs) ys"
  by (simp add: run_events_def)

lemma run_events_settled: "settled s = Some r \<Longrightarrow> settled (run_events shown s evs) = Some r"
  by (induction evs arbitrary: s) (simp_all add: run_events_Nil run_events_Cons step_settled)

lemma step_terminal:
  "is_terminal (status (exec s)) \<Longrightarrow> is_terminal (status (exec (step shown s ev)))"
proof (cases ev)
  case (Pair now e)
  assume "is_terminal (status (exec s))"
  then show ?thesis unfolding Pair
    by (cases e) (auto simp: exec_settle Let_def is_terminal_def cancelExecution_def)
qed

lemma run_events_terminal:
  "is_terminal (status (exec s)) \<Longrightarrow> is_terminal (status (exec (run_events shown s evs)))"
  by (induction evs arbitrary: s) (simp_all add: run_events_Nil run_events_Cons step_terminal)

lemma run_events_output_only:
  "output_only pre \<Longrightarrow>
   run_events shown s pre =
     s\<lparr>exec := (exec s)\<lparr>stdout := stdout (exec s) @ captured_stdout pre,
                         stderr := stderr (exec s) @ captured_stderr pre\<rparr>\<rparr>"
proof (induction pre arbitrary: s)
  case Nil
  then show ?case by (simp add: run_events_Nil captured_stdout_def captured_stderr_def)
next
  case (Cons te pre)
  obtain now e where te: "te = (now, e)" by (cases te)
  from Cons.prems have out: "is_output e" and rest: "output_only pre"
    by (simp_all add: output_only_def te)
  show ?case
    using out Cons.IH [OF rest] unfolding te
    by (cases e) (simp_all add: run_events_Cons captured_stdout_def captured_stderr_def)
qed

lemma executeCommand_runs:
  assumes "startsWith (command c) ''gcloud ''" "gcloudAvailable w"
      and "directory_to_check c = None \<or> (\<exists>d. directory_to_check c = Some d \<and> existsSync w d)"
      and "spawn_result w = Inr p"
  shows "snd (executeCommand w c) =
           settled (run_events (numberToString w (effective_timeout (config w) c))
                      (spawned (new_execution w c) p) (events w))"
  using assms by (auto simp: executeCommand_def runCommand_def new_execution_def)

lemma step_timeout_settled:
  "timerArmed s \<Longrightarrow> settled s = None \<Longrightarrow>
   settled (step shown s (now, TimeoutFired)) = Some (Inl (timeout_error shown))"
  by (simp add: settle_def)

lemma step_error_settled:
  "settled s = None \<Longrightarrow>
   settled (step shown s (now, ProcError msg)) = Some (Inl (plain_error (''Process error: '' @ msg)))"
  by (simp add: settle_def)

lemma step_close_settled:
  "settled s = None \<Longrightarrow> \<not> cancelled (exec s) \<Longrightarrow>
   settled (step shown s (now, Close code)) =
     (if code \<noteq> Some 0 \<and> checkForAuthError (stderr (exec s))
      then Some (Inl (auth_error code (stderr (exec s))))
      else Some (Inr ((exec s)\<lparr>endTime := Some now,
                               exitCode := Some (case code of None \<Rightarrow> 0 | Some n \<Rightarrow> n),
                               status := (if code = Some 0 then Completed else Failed)\<rparr>)))"
  by (simp add: settle_def Let_def)

lemma executeCommand_first_event:
  assumes ok: "startsWith (command c) ''gcloud ''" "gcloudAvailable w"
      and dir: "directory_to_check c = None \<or> (\<exists>d. directory_to_check c = Some d \<and> existsSync w d)"
      and sp: "spawn_result w = Inr p"
      and evs: "events w = pre @ (now, ev) # post" "output_only pre"
  shows "(ev = TimeoutFired \<longrightarrow>
            snd (executeCommand w c)
              = Some (Inl (timeout_error (numberToString w (effective_timeout (config w) c)))))
       \<and> (\<forall>msg. ev = ProcError msg \<longrightarrow>
            snd (executeCommand w c) = Some (Inl (plain_error (''Process error: '' @ msg))))
       \<and> (\<forall>code. ev = Close code \<longrightarrow>
            snd (executeCommand w c) =
              (if code \<noteq> Some 0 \<and> checkForAuthError (captured_stderr pre)
               then Some (Inl (auth_error code (captured_stderr pre)))
               else Some (Inr (closed_record (new_execution w c) p pre now code))))"
proof -
  define shown where "shown = numberToString w (effective_timeout (config w) c)"
  define s1 where "s1 = run_events shown (spawned (new_execution w c) p) pre"
  have s1: "s1 = (spawned (new_execution w c) p)
                   \<lparr>exec := (exec (spawned (new_execution w c) p))
                      \<lparr>stdout := stdout (exec (spawned (new_execution w c) p)) @ captured_stdout pre,
                       stderr := stderr (exec (spawned (new_execution w c) p)) @ captured_stderr pre\<rparr>\<rparr>"
    unfolding s1_def by (rule run_events_output_only [OF evs(2)])
  have pending: "settled s1 = None" and armed: "timerArmed s1"
   and nc: "\<not> cancelled (exec s1)" and err: "stderr (exec s1) = captured_stderr pre"
    by (simp_all add: s1 spawned_def new_execution_def)
  have rec: "(exec s1)\<lparr>endTime := Some now,
                        exitCode := Some (case code of None \<Rightarrow> 0 | Some n \<Rightarrow> n),
                        status := (if code = Some 0 then Completed else Failed)\<rparr>
             = closed_record (new_execution w c) p pre now code" for code
    by (simp add: s1 spawned_def closed_record_def)
  have out: "snd (executeCommand w c) = settled (run_events shown (step shown s1 (now, ev)) post)"
    by (simp add: executeCommand_runs [OF ok dir sp] evs(1) run_events_append run_events_Cons
          shown_def s1_def)
  have t: "settled (run_events shown (step shown s1 (now, TimeoutFired)) post)
             = Some (Inl (timeout_error shown))"
    by (rule run_events_settled) (rule step_timeout_settled [OF armed pending])
  have e: "settled (run_events shown (step shown s1 (now, ProcError msg)) post)
             = Some (Inl (plain_error (''Process error: '' @ msg)))" for msg
    by (rule run_events_settled) (rule step_error_settled [OF pending])
  have cl: "settled (run_events shown (step shown s1 (now, Close code)) post)
             = Some (if code \<noteq> Some 0 \<and> checkForAuthError (captured_stderr pre)
                     then Inl (auth_error code (captured_stderr pre))
                     else Inr (closed_record (new_execution w c) p pre now code))" for code
    by (rule run_events_settled)
       (simp add: step_close_settled [OF pending nc] err rec del: step.simps)
  from out t e cl show ?thesis by (simp add: shown_def)
qed

lemma runCommand_timeout:
  assumes "spawn_result w = Inr p" "events w = pre @ (now, TimeoutFired) # post"
      and "output_only pre"
  shows "runCommand w e =
           Some (Inl (timeout_error (numberToString w
                        (effective_timeout (config w) (exec_command e)))))"
proof -
  define shown where "shown = numberToString w (effective_timeout (config w) (exec_command e))"
  define s1 where "s1 = run_events shown (spawned e p) pre"
  have "s1 = (spawned e p)
               \<lparr>exec := (exec (spawned e p))
                  \<lparr>stdout := stdout (exec (spawned e p)) @ captured_stdout pre,
                   stderr := stderr (exec (spawned e p)) @ captured_stderr pre\<rparr>\<rparr>"
    unfolding s1_def by (rule run_events_output_only [OF assms(3)])
  then have armed: "timerArmed s1" and pending: "settled s1 = None"
    by (simp_all add: spawned_def)
  have "settled (run_events shown (step shown s1 (now, TimeoutFired)) post)
          = Some (Inl (timeout_error shown))"
    by (rule run_events_settled) (rule step_timeout_settled [OF armed pending])
  then show ?thesis
    by (simp add: runCommand_def assms(1,2) run_events_append run_events_Cons shown_def s1_def)
qed

text \<open>After the time-out of an execution that was not cancelled: no later event marks
  it cancelled, and only a \<^verbatim>\<open>close\<close> with exit code 0 takes the status away from
  \<open>Failed\<close>.\<close>

lemma step_not_cancelled:
  assumes "\<not> cancelled (exec s)" "status (exec s) \<noteq> Running"
  shows "\<not> cancelled (exec (step shown s ev)) \<and> status (exec (step shown s ev)) \<noteq> Running
       \<and> (status (exec s) \<noteq> Cancelled \<longrightarrow> status (exec (step shown s ev)) \<noteq> Cancelled)"
proof (cases ev)
  case (Pair now e)
  show ?thesis using assms unfolding Pair
    by (cases e) (auto simp: exec_settle Let_def cancelExecution_def)
qed

lemma run_events_not_cancelled:
  assumes "\<not> cancelled (exec s)" "status (exec s) \<noteq> Running" "status (exec s) \<noteq> Cancelled"
  shows "\<not> cancelled (exec (run_events shown s evs))
       \<and> status (exec (run_events shown s evs)) \<noteq> Cancelled"
  using assms
proof (induction evs arbitrary: s)
  case Nil
  then show ?case by (simp add: run_events_Nil)
next
  case (Cons ev evs)
  from step_not_cancelled [OF Cons.prems(1,2), of shown ev] Cons.prems(3)
  have "\<not> cancelled (exec (step shown s ev))" "status (exec (step shown s ev)) \<noteq> Running"
       "status (exec (step shown s ev)) \<noteq> Cancelled"
    by blast+
  from Cons.IH [OF this] show ?case by (simp add: run_events_Cons)
qed

lemma step_stays_failed:
  assumes "\<not> cancelled (exec s)" "status (exec s) = Failed" "\<not> clean_close (snd ev)"
  shows "\<not> cancelled (exec (step shown s ev)) \<and> status (exec (step shown s ev)) = Failed"
proof (cases ev)
  case (Pair now e)
  show ?thesis using assms unfolding Pair
    by (cases e) (auto simp: exec_settle Let_def cancelExecution_def)
qed

lemma run_events_stays_failed:
  assumes "\<not> cancelled (exec s)" "status (exec s) = Failed"
      and "\<not> list_ex (\<lambda>te. clean_close (snd te)) evs"
  shows "status (exec (run_events shown s evs)) = Failed"
  using assms
proof (induction evs arbitrary: s)
  case Nil
  then show ?case by (simp add: run_events_Nil)
next
  case (Cons ev evs)
  from Cons.prems(3) have here: "\<not> clean_close (snd ev)"
    and rest: "\<not> list_ex (\<lambda>te. clean_close (snd te)) evs"
    by simp_all
  from step_stays_failed [OF Cons.prems(1,2) here, of shown]
  have "\<not> cancelled (exec (step shown s ev))" "status (exec (step shown s ev)) = Failed"
    by blast+
  from Cons.IH [OF this rest] show ?case by (simp add: run_events_Cons)
qed

lemma example_checks:
  "startsWith (command example_command) ''gcloud ''"
  "directory_to_check example_command = None"
  by (simp_all add: example_command_def directory_to_check_def)

section \<open>Facts about the string functions\<close>

lemma startsWith_iff: "startsWith s p \<longleftrightarrow> (\<exists>b. s = p @ b)"
  by (induction s p rule: startsWith.induct) auto

lemma includes_str_iff: "includes_str s p \<longleftrightarrow> (\<exists>a b. s = a @ p @ b)"
proof (induction s)
  case Nil
  then show ?case by auto
next
  case (Cons c s)
  have "(\<exists>a b. c # s = a @ p @ b) \<longleftrightarrow> (\<exists>b. c # s = p @ b) \<or> (\<exists>a b. s = a @ p @ b)"
  proof
    assume "\<exists>a b. c # s = a @ p @ b"
    then obtain a b where ab: "c # s = a @ p @ b" by blast
    show "(\<exists>b. c # s = p @ b) \<or> (\<exists>a b. s = a @ p @ b)"
    proof (cases a)
      case Nil
      with ab show ?thesis by auto
    next
      case (Cons x a')
      with ab have "s = a' @ p @ b" by simp
      then show ?thesis by blast
    qed
  next
    assume "(\<exists>b. c # s = p @ b) \<or> (\<exists>a b. s = a @ p @ b)"
    then show "\<exists>a b. c # s = a @ p @ b"
    proof
      assume "\<exists>b. c # s = p @ b"
      then obtain b where "c # s = [] @ p @ b" by auto
      then show ?thesis by blast
    next
      assume "\<exists>a b. s = a @ p @ b"
      then obtain a b where "c # s = (c # a) @ p @ b" by auto
      then show ?thesis by blast
    qed
  qed
  with Cons.IH show ?case by (simp add: startsWith_iff)
qed

lemma toLowerChar_idem: "toLowerChar (toLowerChar c) = toLowerChar c"
proof -
  have lt: "(of_char c :: nat) < 256" by simp
  show ?thesis
    using lt by (auto simp: toLowerChar_def Let_def)
qed

lemma toLowerCase_idem: "toLowerCase (toLowerCase s) = toLowerCase s"
  by (simp add: toLowerCase_def toLowerChar_idem)

lemma checkForAuthError_iff:
  "checkForAuthError lines \<longleftrightarrow>
     (\<exists>line pattern a b. line \<in> set lines \<and> pattern \<in> set authErrorPatterns
        \<and> toLowerCase line = a @ pattern @ b)"
  unfolding checkForAuthError_def list_ex_iff includes_str_iff by blast

lemma checkForAuthError_lower:
  "checkForAuthError (map toLowerCase lines) = checkForAuthError lines"
  by (simp add: checkForAuthError_def list_ex_iff toLowerCase_idem)

lemma split_ws_aux_concat:
  "concat (split_ws_aux inws cur s) = rev cur @ filter (\<lambda>ch. \<not> is_space ch) s"
  by (induction s arbitrary: inws cur) simp_all

lemma split_ws_aux_no_space:
  "\<not> list_ex is_space cur \<Longrightarrow>
   list_all (\<lambda>a. \<not> list_ex is_space a) (split_ws_aux inws cur s)"
  by (induction s arbitrary: inws cur) (simp_all add: list_ex_iff)

lemma parse_args_pieces:
  "list_all (\<lambda>a. \<not> list_ex is_space a) (parse_args c)"
  "concat (parse_args c) = filter (\<lambda>ch. \<not> is_space ch) (strip_gcloud (command c))"
  by (simp_all add: parse_args_def split_ws_def split_ws_aux_no_space split_ws_aux_concat)

section \<open>Facts about the probe\<close>

lemma get_prop_not_null:
  "v \<noteq> JNull \<Longrightarrow> get_prop v k = Inr (prop_of v k)"
  "JNull \<noteq> v \<Longrightarrow> get_prop v k = Inr (prop_of v k)"
  by (cases v; simp)+

lemma find_active_not_null:
  "JNull \<notin> set accounts \<Longrightarrow>
   find_active accounts =
     Inr (List.find (\<lambda>acc. prop_of acc ''status'' = Some (JString ''ACTIVE'')) accounts)"
  by (induction accounts) (simp_all add: get_prop_not_null)

lemma find_active_found: "find_active accounts = Inr (Some acc) \<Longrightarrow> acc \<noteq> JNull"
  by (induction accounts) (auto split: sum.splits if_splits)

lemma map_account_not_null:
  "JNull \<notin> set accounts \<Longrightarrow>
   map_account accounts = Inr (map (\<lambda>acc. prop_of acc ''account'') accounts)"
  by (induction accounts) (simp_all add: get_prop_not_null)

lemma map_account_null: "JNull \<in> set accounts \<Longrightarrow> map_account accounts = Inl TypeError"
proof (induction accounts)
  case Nil
  then show ?case by simp
next
  case (Cons acc accounts)
  show ?case
  proof (cases "acc = JNull")
    case True
    then show ?thesis by simp
  next
    case False
    with Cons.prems have "JNull \<in> set accounts" by simp
    from Cons.IH [OF this] False show ?thesis
      by (simp add: get_prop_not_null)
  qed
qed

section \<open>The example runs of the probe\<close>

lemma example_lines:
  "output_lines accounts_json = [accounts_json]"
  "output_lines ''ERROR: boom'' = [''ERROR: boom'']"
  "output_lines ''Listing'' = [''Listing'']"
  "output_lines ''null'' = [''null'']"
  "output_lines ''[null]'' = [''[null]'']"
  "\<not> checkForAuthError [''ERROR: boom'']"
  "\<not> checkForAuthError []"
  by code_simp+

lemmas example_unfold =
  executeCommand_def accounts_world_def failing_world_def timeout_world_def null_world_def
  null_entry_world_def example_world_def auth_list_command_def project_command_def
  directory_to_check_def runCommand_def run_events_def spawned_def new_execution_def
  settle_def Let_def example_lines

lemma example_runs:
  "\<exists>ex. snd (executeCommand accounts_world auth_list_command) = Some (Inr ex)
        \<and> status ex = Completed \<and> stdout ex = [accounts_json]"
  "\<exists>ex. snd (executeCommand failing_world auth_list_command) = Some (Inr ex)
        \<and> status ex = Failed"
  "\<exists>ex. snd (executeCommand failing_world project_command) = Some (Inr ex)
        \<and> status ex = Failed"
  "\<exists>err. snd (executeCommand timeout_world auth_list_command) = Some (Inl err)"
  "\<exists>err. snd (executeCommand timeout_world project_command) = Some (Inl err)"
  "\<exists>ex. snd (executeCommand null_world auth_list_command) = Some (Inr ex)
        \<and> status ex = Completed \<and> stdout ex = [''null'']"
  "\<exists>ex. snd (executeCommand null_entry_world auth_list_command) = Some (Inr ex)
        \<and> status ex = Completed \<and> stdout ex = [''[null]'']"
  by (simp_all add: example_unfold)

section \<open>What executeCommand throws and what it returns\<close>

text \<open>
  Claim C1, as the code has it. For a command with the right prefix,
  \<^verbatim>\<open>executeCommand\<close> throws without spawning when the SDK is not available and when
  the working directory that was given does not exist. When the command passes these
  checks and \<^verbatim>\<open>spawn\<close> returns, let the child process deliver output only, up to the
  first other event. If that event is the expiry of the timer, \<^verbatim>\<open>executeCommand\<close>
  throws the time-out error; if it is the \<^verbatim>\<open>error\<close> event of the process, it throws a
  process error; if it is \<^verbatim>\<open>close\<close> with an exit code other than 0 and some captured
  line of stderr carries an authentication marker, it throws the authentication error
  with the exit code and the stderr lines. Every other \<^verbatim>\<open>close\<close> is returned as the
  execution record: \<open>Completed\<close> for exit code 0, and \<open>Failed\<close>, with the exit code and
  the captured output inside the record, for a non-zero or missing exit code without
  an authentication marker. So three kinds of failure after the spawn are thrown, and
  one is returned.
\<close>

theorem executeCommand_outcome:
  "(startsWith (command c) ''gcloud '' \<and> \<not> gcloudAvailable w \<longrightarrow>
      executeCommand w c = ([VersionCheck], Some (Inl sdk_not_found)))
   \<and> (\<forall>d. startsWith (command c) ''gcloud '' \<and> gcloudAvailable w
          \<and> directory_to_check c = Some d \<and> \<not> existsSync w d \<longrightarrow>
        executeCommand w c =
          ([VersionCheck, ExistsSync d],
           Some (Inl (plain_error (''Working directory does not exist: '' @ d)))))
   \<and> (\<forall>p pre now ev post.
        startsWith (command c) ''gcloud '' \<and> gcloudAvailable w
          \<and> (directory_to_check c = None
               \<or> (\<exists>d. directory_to_check c = Some d \<and> existsSync w d))
          \<and> spawn_result w = Inr p
          \<and> events w = pre @ (now, ev) # post \<and> output_only pre \<longrightarrow>
        (ev = TimeoutFired \<longrightarrow>
           snd (executeCommand w c)
             = Some (Inl (timeout_error (numberToString w (effective_timeout (config w) c)))))
        \<and> (\<forall>msg. ev = ProcError msg \<longrightarrow>
             snd (executeCommand w c) = Some (Inl (plain_error (''Process error: '' @ msg))))
        \<and> (\<forall>code. ev = Close code \<longrightarrow>
             snd (executeCommand w c) =
               (if code \<noteq> Some 0 \<and> checkForAuthError (captured_stderr pre)
                then Some (Inl (auth_error code (captured_stderr pre)))
                else Some (Inr (closed_record (new_execution w c) p pre now code)))))"
proof (intro conjI allI impI)
  assume "startsWith (command c) ''gcloud '' \<and> \<not> gcloudAvailable w"
  then show "executeCommand w c = ([VersionCheck], Some (Inl sdk_not_found))"
    by (simp add: executeCommand_def)
next
  fix d
  assume "startsWith (command c) ''gcloud '' \<and> gcloudAvailable w
          \<and> directory_to_check c = Some d \<and> \<not> existsSync w d"
  then show "executeCommand w c =
          ([VersionCheck, ExistsSync d],
           Some (Inl (plain_error (''Working directory does not exist: '' @ d))))"
    by (simp add: executeCommand_def)
next
  fix p pre now ev post
  assume a: "startsWith (command c) ''gcloud '' \<and> gcloudAvailable w
          \<and> (directory_to_check c = None
               \<or> (\<exists>d. directory_to_check c = Some d \<and> existsSync w d))
          \<and> spawn_result w = Inr p
          \<and> events w = pre @ (now, ev) # post \<and> output_only pre"
  then have *: "startsWith (command c) ''gcloud ''" "gcloudAvailable w"
    "directory_to_check c = None \<or> (\<exists>d. directory_to_check c = Some d \<and> existsSync w d)"
    "spawn_result w = Inr p" "events w = pre @ (now, ev) # post" "output_only pre"
    by blast+
  note first = executeCommand_first_event [OF *]
  {
    assume "ev = TimeoutFired"
    with first show "snd (executeCommand w c)
             = Some (Inl (timeout_error (numberToString w (effective_timeout (config w) c))))"
      by blast
  }
  {
    fix msg
    assume "ev = ProcError msg"
    with first show "snd (executeCommand w c)
             = Some (Inl (plain_error (''Process error: '' @ msg)))"
      by blast
  }
  {
    fix code
    assume "ev = Close code"
    with first show "snd (executeCommand w c) =
               (if code \<noteq> Some 0 \<and> checkForAuthError (captured_stderr pre)
                then Some (Inl (auth_error code (captured_stderr pre)))
                else Some (Inr (closed_record (new_execution w c) p pre now code)))"
      by blast
  }
qed

theorem executeCommand_outcome_witness:
  "executeCommand no_sdk_world example_command = ([VersionCheck], Some (Inl sdk_not_found))
   \<and> executeCommand example_world missing_dir_command =
        ([VersionCheck, ExistsSync ''/does/not/exist''],
         Some (Inl (plain_error ''Working directory does not exist: /does/not/exist'')))
   \<and> output_only [(2, StdoutData ''Listing'')]
   \<and> snd (executeCommand timeout_world example_command) = Some (Inl (timeout_error ''10''))
   \<and> snd (executeCommand failing_world example_command)
       = Some (Inr (closed_record (new_execution failing_world example_command) (Some 7)
                      [(3, StderrData ''ERROR: boom'')] 4 (Some 1)))
   \<and> snd (executeCommand unauthenticated_world example_command)
       = Some (Inl (auth_error (Some 1) [''ERROR: Not Authenticated'']))"
proof -
  have pre: "startsWith (command example_command) ''gcloud ''"
            "startsWith (command missing_dir_command) ''gcloud ''"
    by (simp_all add: example_command_def missing_dir_command_def)
  have av: "\<not> gcloudAvailable no_sdk_world" "gcloudAvailable example_world"
           "gcloudAvailable timeout_world" "gcloudAvailable failing_world"
           "gcloudAvailable unauthenticated_world"
    by (simp_all add: no_sdk_world_def timeout_world_def failing_world_def
          unauthenticated_world_def example_world_def)
  have md: "directory_to_check missing_dir_command = Some ''/does/not/exist''"
           "\<not> existsSync example_world ''/does/not/exist''"
    by (simp_all add: missing_dir_command_def example_command_def directory_to_check_def
          existsSync_def example_world_def)
  have dir: "directory_to_check example_command = None
             \<or> (\<exists>d. directory_to_check example_command = Some d \<and> existsSync w d)" for w
    by (simp add: example_checks)
  have sp: "spawn_result timeout_world = Inr (Some 7)" "spawn_result failing_world = Inr (Some 7)"
           "spawn_result unauthenticated_world = Inr (Some 7)"
    by (simp_all add: timeout_world_def failing_world_def unauthenticated_world_def
          example_world_def)
  have ev1: "events timeout_world = [(2, StdoutData ''Listing'')] @ (10, TimeoutFired) # [(11, Close None)]"
    by (simp add: timeout_world_def)
  have ev2: "events failing_world = [(3, StderrData ''ERROR: boom'')] @ (4, Close (Some 1)) # []"
    by (simp add: failing_world_def)
  have ev3: "events unauthenticated_world
               = [(3, StderrData ''ERROR: Not Authenticated'')] @ (4, Close (Some 1)) # []"
    by (simp add: unauthenticated_world_def)
  have o1: "output_only [(2, StdoutData ''Listing'')]"
   and o2: "output_only [(3, StderrData ''ERROR: boom'')]"
   and o3: "output_only [(3, StderrData ''ERROR: Not Authenticated'')]"
    by (simp_all add: output_only_def)
  have ms: "numberToString timeout_world
              (effective_timeout (config timeout_world) example_command) = ''10''"
    by (simp add: effective_timeout_def example_command_def timeout_world_def
          example_world_def example_numberToString_def)
  have a2: "\<not> checkForAuthError (captured_stderr [(3, StderrData ''ERROR: boom'')])"
    by code_simp
  have a3: "captured_stderr [(3, StderrData ''ERROR: Not Authenticated'')]
              = [''ERROR: Not Authenticated'']"
    by code_simp
  have a3': "checkForAuthError [''ERROR: Not Authenticated'']"
    by code_simp
  from executeCommand_outcome [of example_command no_sdk_world] pre(1) av(1)
  have r0: "executeCommand no_sdk_world example_command
              = ([VersionCheck], Some (Inl sdk_not_found))"
    by blast
  from executeCommand_outcome [of missing_dir_command example_world] pre(2) av(2) md
  have r0': "executeCommand example_world missing_dir_command =
        ([VersionCheck, ExistsSync ''/does/not/exist''],
         Some (Inl (plain_error (''Working directory does not exist: '' @ ''/does/not/exist''))))"
    by blast
  from executeCommand_outcome [of example_command timeout_world] pre(1) av(3) dir sp(1) ev1 o1
  have "snd (executeCommand timeout_world example_command)
          = Some (Inl (timeout_error (numberToString timeout_world
                         (effective_timeout (config timeout_world) example_command))))"
    by blast
  then have r1: "snd (executeCommand timeout_world example_command) = Some (Inl (timeout_error ''10''))"
    by (simp add: ms)
  from executeCommand_outcome [of example_command failing_world] pre(1) av(4) dir sp(2) ev2 o2
  have "snd (executeCommand failing_world example_command) =
          (if Some 1 \<noteq> Some (0::int)
               \<and> checkForAuthError (captured_stderr [(3, StderrData ''ERROR: boom'')])
           then Some (Inl (auth_error (Some 1) (captured_stderr [(3, StderrData ''ERROR: boom'')])))
           else Some (Inr (closed_record (new_execution failing_world example_command) (Some 7)
                      [(3, StderrData ''ERROR: boom'')] 4 (Some 1))))"
    by blast
  then have r2: "snd (executeCommand failing_world example_command)
       = Some (Inr (closed_record (new_execution failing_world example_command) (Some 7)
                      [(3, StderrData ''ERROR: boom'')] 4 (Some 1)))"
    by (simp add: a2)
  from executeCommand_outcome [of example_command unauthenticated_world]
    pre(1) av(5) dir sp(3) ev3 o3
  have "snd (executeCommand unauthenticated_world example_command) =
          (if Some 1 \<noteq> Some (0::int)
               \<and> checkForAuthError (captured_stderr [(3, StderrData ''ERROR: Not Authenticated'')])
           then Some (Inl (auth_error (Some 1)
                  (captured_stderr [(3, StderrData ''ERROR: Not Authenticated'')])))
           else Some (Inr (closed_record (new_execution unauthenticated_world example_command)
                      (Some 7) [(3, StderrData ''ERROR: Not Authenticated'')] 4 (Some 1))))"
    by blast
  then have r3: "snd (executeCommand unauthenticated_world example_command)
       = Some (Inl (auth_error (Some 1) [''ERROR: Not Authenticated'']))"
    by (simp add: a3 a3')
  from r0 r0' o1 r1 r2 r3 show ?thesis by simp
qed

text \<open>
  The claim as the specification words it, that no failure after the spawn is thrown,
  fails for a time-out: the command passes every check, the process is spawned, the
  timer expires after 10 ms, and \<^verbatim>\<open>executeCommand\<close> throws.
\<close>

theorem executeCommand_throws_after_spawn:
  "executeCommand timeout_world example_command
     = ([VersionCheck,
         Spawn \<lparr>spawn_file = ''gcloud'', spawn_args = [''projects'', ''list''], cwd = None,
                env = [], shell = True\<rparr>],
        Some (Inl (plain_error ''Command timed out after 10ms'')))"
  by code_simp

section \<open>The expiry of the timer\<close>

text \<open>
  Claim C2, as the code has it. When the timer of a running execution expires (it is
  still set, so neither \<^verbatim>\<open>close\<close> nor \<^verbatim>\<open>error\<close> came first), the handler sends
  \<^verbatim>\<open>SIGTERM\<close> to the child if its pid is known, sets the status to \<open>Failed\<close>, not to
  \<open>Cancelled\<close>, leaves the \<open>cancelled\<close> flag as it was, and rejects the promise, if
  it is still pending, with a \<^verbatim>\<open>GCloudError\<close> whose message is
  \<^verbatim>\<open>Command timed out after\<close>, the time-out as the platform prints the number, and
  \<^verbatim>\<open>ms\<close>. Whatever events follow, the promise stays settled that way: the caller
  gets the error and no record. If the execution was not cancelled before, no later
  event marks it \<open>Cancelled\<close>, and the status stays \<open>Failed\<close> as long as no
  \<^verbatim>\<open>close\<close> with exit code 0 follows. For a run of \<^verbatim>\<open>runCommand\<close> in which the timer
  expires after output only, the message carries the time-out that the timer was set
  with. The time-out is told apart by the thrown message, not by a reason inside a
  record.
\<close>

theorem timeout_marks_failed:
  assumes "timerArmed s"
  shows "status (exec (step shown s (now, TimeoutFired))) = Failed
       \<and> cancelled (exec (step shown s (now, TimeoutFired))) = cancelled (exec s)
       \<and> \<not> timerArmed (step shown s (now, TimeoutFired))
       \<and> kills (step shown s (now, TimeoutFired))
           = (case pid (exec s) of
                None \<Rightarrow> kills s
              | Some p \<Rightarrow> if p = 0 then kills s else Suc (kills s))
       \<and> settled (run_events shown (step shown s (now, TimeoutFired)) evs)
           = Some (case settled s of None \<Rightarrow> Inl (timeout_error shown) | Some r \<Rightarrow> r)
       \<and> message (timeout_error shown) = ''Command timed out after '' @ shown @ ''ms''
       \<and> (\<not> cancelled (exec s) \<longrightarrow>
            \<not> cancelled (exec (run_events shown (step shown s (now, TimeoutFired)) evs))
            \<and> status (exec (run_events shown (step shown s (now, TimeoutFired)) evs)) \<noteq> Cancelled)
       \<and> (\<not> cancelled (exec s) \<and> \<not> list_ex (\<lambda>te. clean_close (snd te)) evs \<longrightarrow>
            status (exec (run_events shown (step shown s (now, TimeoutFired)) evs)) = Failed)
       \<and> (\<forall>w e p pre post.
            spawn_result w = Inr p \<and> events w = pre @ (now, TimeoutFired) # post
              \<and> output_only pre \<longrightarrow>
            runCommand w e =
              Some (Inl (timeout_error (numberToString w
                           (effective_timeout (config w) (exec_command e))))))"
proof -
  let ?s1 = "step shown s (now, TimeoutFired)"
  have st: "status (exec ?s1) = Failed" and ca: "cancelled (exec ?s1) = cancelled (exec s)"
   and ti: "\<not> timerArmed ?s1"
   and ki: "kills ?s1 = (case pid (exec s) of
                None \<Rightarrow> kills s
              | Some p \<Rightarrow> if p = 0 then kills s else Suc (kills s))"
   and se: "settled ?s1 = Some (case settled s of None \<Rightarrow> Inl (timeout_error shown) | Some r \<Rightarrow> r)"
    using assms
    by (simp_all add: exec_settle timerArmed_settle kills_settle settled_settle
          split: option.splits)
  have later: "settled (run_events shown ?s1 evs)
                 = Some (case settled s of None \<Rightarrow> Inl (timeout_error shown) | Some r \<Rightarrow> r)"
    by (rule run_events_settled [OF se])
  have msg: "message (timeout_error shown) = ''Command timed out after '' @ shown @ ''ms''"
    by (simp add: timeout_error_def plain_error_def)
  have nc: "\<not> cancelled (exec (run_events shown ?s1 evs))
            \<and> status (exec (run_events shown ?s1 evs)) \<noteq> Cancelled"
    if "\<not> cancelled (exec s)"
    by (rule run_events_not_cancelled) (use that st ca in simp_all)
  have fa: "status (exec (run_events shown ?s1 evs)) = Failed"
    if "\<not> cancelled (exec s) \<and> \<not> list_ex (\<lambda>te. clean_close (snd te)) evs"
    by (rule run_events_stays_failed) (use that st ca in simp_all)
  have rc: "runCommand w e =
              Some (Inl (timeout_error (numberToString w
                           (effective_timeout (config w) (exec_command e)))))"
    if "spawn_result w = Inr p \<and> events w = pre @ (now, TimeoutFired) # post \<and> output_only pre"
    for w e p pre post
    using that runCommand_timeout [of w p pre now post e] by blast
  from st ca ti ki later msg nc fa rc show ?thesis
    by blast
qed

theorem timeout_marks_failed_witness:
  "timerArmed example_running
   \<and> \<not> cancelled (exec example_running)
   \<and> \<not> list_ex (\<lambda>te. clean_close (snd te)) [(13, Close None)]
   \<and> status (exec (step ''10'' example_running (12, TimeoutFired))) = Failed
   \<and> kills (step ''10'' example_running (12, TimeoutFired)) = 1
   \<and> settled (run_events ''10'' (step ''10'' example_running (12, TimeoutFired))
                [(13, Close None)])
       = Some (Inl (plain_error ''Command timed out after 10ms''))
   \<and> status (exec (run_events ''10'' (step ''10'' example_running (12, TimeoutFired))
                     [(13, Close None)])) = Failed
   \<and> \<not> cancelled (exec (run_events ''10'' (step ''10'' example_running (12, TimeoutFired))
                           [(13, Close None)]))
   \<and> runCommand (timeout_world\<lparr>events := [(2, StdoutData ''Listing''), (12, TimeoutFired)]\<rparr>)
        (new_execution example_world example_command)
       = Some (Inl (plain_error ''Command timed out after 10ms''))"
proof -
  let ?w = "timeout_world\<lparr>events := [(2, StdoutData ''Listing''), (12, TimeoutFired)]\<rparr>"
  let ?e = "new_execution example_world example_command"
  have a: "timerArmed example_running" and p: "settled example_running = None"
   and c: "\<not> cancelled (exec example_running)"
   and k: "pid (exec example_running) = Some 7" "kills example_running = 0"
    by (simp_all add: example_running_def spawned_def new_execution_def)
  have n: "\<not> list_ex (\<lambda>te. clean_close (snd te)) [(13, Close None)]"
    by simp
  have m: "timeout_error ''10'' = plain_error ''Command timed out after 10ms''"
    by (simp add: timeout_error_def)
  have sp: "spawn_result ?w = Inr (Some 7)"
   and ev: "events ?w = [(2, StdoutData ''Listing'')] @ (12, TimeoutFired) # []"
   and oo: "output_only [(2, StdoutData ''Listing'')]"
    by (simp_all add: timeout_world_def example_world_def output_only_def)
  have sh: "numberToString ?w (effective_timeout (config ?w) (exec_command ?e)) = ''10''"
    by (simp add: timeout_world_def example_world_def new_execution_def example_command_def
          effective_timeout_def example_numberToString_def)
  note t = timeout_marks_failed [OF a, of "''10''" 12 "[(13, Close None)]"]
  from t have r: "runCommand ?w ?e =
      Some (Inl (timeout_error (numberToString ?w
                   (effective_timeout (config ?w) (exec_command ?e)))))"
    using sp ev oo by blast
  from t a p c k n m r sh show ?thesis
    by (simp del: step.simps add: run_events_Cons run_events_Nil)
qed

text \<open>
  The claim as the specification words it, that a time-out ends in \<open>Cancelled\<close>, fails:
  after the output, the expiry of the timer and the \<^verbatim>\<open>close\<close> of the killed process,
  the status is \<open>Failed\<close> and the \<open>cancelled\<close> flag is not set.
\<close>

theorem timeout_status_is_failed:
  "status (exec (run_events ''10'' example_running (events timeout_world))) = Failed
   \<and> \<not> cancelled (exec (run_events ''10'' example_running (events timeout_world)))"
  by code_simp

section \<open>The error of a failed close\<close>

text \<open>
  Claim C3, as the code has it. When a process that was not cancelled closes with an
  exit code other than 0 (or with none) while the promise is pending, the status
  becomes \<open>Failed\<close> and the stderr lines decide what the caller gets. If some line,
  put into lower case, contains one of the seven authentication markers, the caller
  gets the \<^verbatim>\<open>GCloudError\<close> \<^verbatim>\<open>Authentication required\<close> with the exit code, the
  stderr lines, \<^verbatim>\<open>authenticationRequired = true\<close> and the two login suggestions.
  Otherwise no error object is made at all: the caller gets the execution record, with
  the status \<open>Failed\<close> and the stderr lines in it. The match does not depend on the case
  of the letters in the lines. (A time-out yields a \<^verbatim>\<open>GCloudError\<close> that carries a
  message only; the code has no error kinds.)
\<close>

theorem close_failure_classification:
  assumes "\<not> cancelled (exec s)" "code \<noteq> Some 0" "settled s = None"
  shows "status (exec (step shown s (now, Close code))) = Failed
       \<and> settled (step shown s (now, Close code)) =
           (if checkForAuthError (stderr (exec s))
            then Some (Inl \<lparr>message = ''Authentication required'', err_exitCode = code,
                             err_stderr = Some (stderr (exec s)),
                             authenticationRequired = Some True,
                             suggestions = Some login_suggestions\<rparr>)
            else Some (Inr ((exec s)\<lparr>endTime := Some now,
                                     exitCode := Some (case code of None \<Rightarrow> 0 | Some n \<Rightarrow> n),
                                     status := Failed\<rparr>)))
       \<and> (checkForAuthError (stderr (exec s)) \<longleftrightarrow>
            (\<exists>line pattern a b. line \<in> set (stderr (exec s)) \<and> pattern \<in> set authErrorPatterns
               \<and> toLowerCase line = a @ pattern @ b))
       \<and> checkForAuthError (map toLowerCase (stderr (exec s))) = checkForAuthError (stderr (exec s))"
proof -
  have st: "status (exec (step shown s (now, Close code))) = Failed"
    using assms(1,2) by (simp add: exec_settle Let_def)
  have se: "settled (step shown s (now, Close code)) =
           (if checkForAuthError (stderr (exec s))
            then Some (Inl (auth_error code (stderr (exec s))))
            else Some (Inr ((exec s)\<lparr>endTime := Some now,
                                     exitCode := Some (case code of None \<Rightarrow> 0 | Some n \<Rightarrow> n),
                                     status := Failed\<rparr>)))"
    using assms(2) by (simp add: step_close_settled [OF assms(3) assms(1)] del: step.simps)
  show ?thesis
    using st se checkForAuthError_iff [of "stderr (exec s)"]
      checkForAuthError_lower [of "stderr (exec s)"]
    by (simp add: auth_error_def del: step.simps)
qed

theorem close_failure_classification_witness:
  "\<not> cancelled (exec unauthenticated_running)
   \<and> settled unauthenticated_running = None
   \<and> stderr (exec unauthenticated_running) = [''ERROR: Not Authenticated'']
   \<and> status (exec (step ''10'' unauthenticated_running (4, Close (Some 1)))) = Failed
   \<and> settled (step ''10'' unauthenticated_running (4, Close (Some 1))) =
       Some (Inl \<lparr>message = ''Authentication required'', err_exitCode = Some 1,
                  err_stderr = Some [''ERROR: Not Authenticated''],
                  authenticationRequired = Some True,
                  suggestions = Some login_suggestions\<rparr>)"
proof -
  have c: "\<not> cancelled (exec unauthenticated_running)"
   and p: "settled unauthenticated_running = None"
    by (simp_all add: unauthenticated_running_def example_running_def spawned_def
          new_execution_def)
  have l: "stderr (exec unauthenticated_running) = [''ERROR: Not Authenticated'']"
    by code_simp
  have a: "checkForAuthError [''ERROR: Not Authenticated'']"
    by code_simp
  have n: "Some (1::int) \<noteq> Some 0"
    by simp
  from close_failure_classification [OF c n p, of "''10''" 4] c p l a show ?thesis
    by (simp del: step.simps)
qed

text \<open>
  The claim as the specification words it, that every failed execution gets a
  classified error, fails: the command exits with code 1 and the stderr line
  \<^verbatim>\<open>ERROR: boom\<close>; the execution is \<open>Failed\<close> and the caller gets the bare record, with
  no error object of kind unknown or of any other kind.
\<close>

theorem failed_without_error_object:
  "snd (executeCommand failing_world example_command) =
     Some (Inr \<lparr>exec_id = ''u-1'', exec_command = example_command, status = Failed,
                startTime = 0, endTime = Some 4, exitCode = Some 1, stdout = [],
                stderr = [''ERROR: boom''], cancelled = False, pid = Some 7\<rparr>)"
  by code_simp

section \<open>How the subprocess is invoked\<close>

text \<open>
  Claim C4, as the code has it. Every command that passes the checks is spawned
  once, with the file \<^verbatim>\<open>gcloud\<close> and its arguments as a flat ordered list: the pieces
  of the command string between runs of white space, in their order (none of them
  contains white space, and together they are the command string without its white
  space), with \<^verbatim>\<open>--format=json\<close> possibly pushed at the end. The spawn options carry
  \<^verbatim>\<open>shell: true\<close>, so the list is handed to a shell, not to the program directly.
\<close>

theorem spawn_passes_list_through_shell:
  assumes "startsWith (command c) ''gcloud ''" "gcloudAvailable w"
      and "directory_to_check c = None \<or> (\<exists>d. directory_to_check c = Some d \<and> existsSync w d)"
  shows "filter is_spawn (fst (executeCommand w c)) =
           [Spawn \<lparr>spawn_file = ''gcloud'',
                   spawn_args = applyJsonFormat (config w) c (parse_args c),
                   cwd = workingDirectory c,
                   env = (case environment c of None \<Rightarrow> [] | Some kv \<Rightarrow> kv) @ process_env w,
                   shell = True\<rparr>]
       \<and> list_all (\<lambda>a. \<not> list_ex is_space a) (parse_args c)
       \<and> concat (parse_args c) = filter (\<lambda>ch. \<not> is_space ch) (strip_gcloud (command c))"
  using assms
  by (auto simp: executeCommand_def spawn_request_of_def parse_args_pieces)

theorem spawn_passes_list_through_shell_witness:
  "startsWith (command injection_command) ''gcloud ''
   \<and> gcloudAvailable example_world
   \<and> filter is_spawn (fst (executeCommand example_world injection_command)) =
        [Spawn \<lparr>spawn_file = ''gcloud'', spawn_args = [''version;'', ''echo'', ''pwned''],
                cwd = None, env = [], shell = True\<rparr>]"
proof -
  have p: "startsWith (command injection_command) ''gcloud ''"
    by (simp add: injection_command_def)
  have a: "gcloudAvailable example_world"
    by (simp add: example_world_def)
  have d: "directory_to_check injection_command = None
           \<or> (\<exists>d. directory_to_check injection_command = Some d \<and> existsSync example_world d)"
    by (simp add: injection_command_def example_command_def directory_to_check_def)
  have args: "applyJsonFormat (config example_world) injection_command (parse_args injection_command)
                = [''version;'', ''echo'', ''pwned'']"
    by code_simp
  have rest: "workingDirectory injection_command = None"
             "(case environment injection_command of None \<Rightarrow> [] | Some kv \<Rightarrow> kv)
                @ process_env example_world = []"
    by (simp_all add: injection_command_def example_command_def example_world_def)
  from spawn_passes_list_through_shell [OF p a d] p a show ?thesis
    by (simp add: args rest)
qed

text \<open>
  The claim as the specification words it, that the arguments never go through a
  shell, fails: for the command string \<^verbatim>\<open>gcloud version; echo pwned\<close> the spawn gets
  the pieces \<^verbatim>\<open>version;\<close>, \<^verbatim>\<open>echo\<close>, \<^verbatim>\<open>pwned\<close> and the option \<^verbatim>\<open>shell: true\<close>.
\<close>

theorem spawn_goes_through_shell:
  "fst (executeCommand example_world injection_command) =
     [VersionCheck,
      Spawn \<lparr>spawn_file = ''gcloud'', spawn_args = [''version;'', ''echo'', ''pwned''],
             cwd = None, env = [], shell = True\<rparr>]"
  by code_simp

section \<open>The injection of the format flag\<close>

text \<open>
  Claim C5, as the code has it. \<^verbatim>\<open>--format=json\<close> is pushed at the end of the
  argument list exactly when the command supports JSON, JSON output is preferred by
  the configuration or \<^verbatim>\<open>--format=json\<close> is among the \<open>args\<close> of the command, and no
  argument of the list starts with \<^verbatim>\<open>--format=\<close>; otherwise the list is left as it is.
  The step is idempotent: applied to its own result it changes nothing, and when the
  flag is pushed the result holds exactly one format flag.
\<close>

theorem applyJsonFormat_gated_idempotent:
  "applyJsonFormat cfg c as =
     (if supportsJson c \<and> (preferJsonOutput cfg \<or> ''--format=json'' \<in> set (args c))
         \<and> filter is_format_flag as = []
      then as @ [''--format=json''] else as)
   \<and> applyJsonFormat cfg c (applyJsonFormat cfg c as) = applyJsonFormat cfg c as
   \<and> length (filter is_format_flag (applyJsonFormat cfg c as)) =
       (if supportsJson c \<and> (preferJsonOutput cfg \<or> ''--format=json'' \<in> set (args c))
           \<and> filter is_format_flag as = []
        then 1 else length (filter is_format_flag as))"
proof -
  have f: "is_format_flag ''--format=json''"
    by (simp add: is_format_flag_def)
  have e: "list_ex (\<lambda>arg. startsWith arg ''--format='') xs \<longleftrightarrow> filter is_format_flag xs \<noteq> []" for xs
    by (simp add: list_ex_iff is_format_flag_def filter_empty_conv)
  have eq: "applyJsonFormat cfg c xs =
     (if supportsJson c \<and> (preferJsonOutput cfg \<or> ''--format=json'' \<in> set (args c))
         \<and> filter is_format_flag xs = []
      then xs @ [''--format=json''] else xs)" for xs
    unfolding applyJsonFormat_def e by simp
  show ?thesis
    by (simp add: eq f)
qed

text \<open>
  The claim as the specification words it, that support for JSON and the absence of
  a format flag are enough, fails: the example command supports JSON and has no format
  flag, the configuration does not prefer JSON, and the process is spawned without
  \<^verbatim>\<open>--format=json\<close>.
\<close>

theorem applyJsonFormat_not_forced:
  "supportsJson example_command
   \<and> filter is_format_flag (parse_args example_command) = []
   \<and> spawn_args (spawn_request_of example_world example_command) = [''projects'', ''list'']"
  by code_simp

section \<open>The authentication probe\<close>

text \<open>
  Claim C6, as the code has it. The probe never throws. It returns the snapshot with
  \<^verbatim>\<open>isAuthenticated = false\<close> and no accounts when the credential-list command throws,
  when it returns an execution that is not \<open>Completed\<close>, when its output does not
  parse, when the output parses to something that is not a list or (once the project
  command has settled) to a list with a \<^verbatim>\<open>null\<close> entry, and when the project command
  throws. When the credential list has no \<^verbatim>\<open>null\<close> entry and the project command
  returns an execution, the probe reports the credentials read in the first step:
  authenticated if the list is not empty, the active account is the \<^verbatim>\<open>account\<close> of
  the first entry whose \<^verbatim>\<open>status\<close> is \<^verbatim>\<open>ACTIVE\<close> (undefined if there is none), and
  the available accounts are the \<^verbatim>\<open>account\<close> of every entry, in order. The default
  project is what the project command printed, and undefined when that execution is
  not \<open>Completed\<close>, when its output does not parse, and when it is \<^verbatim>\<open>(unset)\<close>: a
  failure of the second step that is not thrown does not degrade the probe.
\<close>

theorem probe_degrades:
  "(\<forall>e. getAuthenticationStatus parse now w1 w2 \<noteq> Some (Inl e))
   \<and> (\<forall>err. snd (executeCommand w1 auth_list_command) = Some (Inl err) \<longrightarrow>
         getAuthenticationStatus parse now w1 w2 = Some (Inr (not_authenticated now)))
   \<and> (\<forall>ex. snd (executeCommand w1 auth_list_command) = Some (Inr ex)
           \<and> (status ex \<noteq> Completed \<or> parse (concat (stdout ex)) = None) \<longrightarrow>
         getAuthenticationStatus parse now w1 w2 = Some (Inr (not_authenticated now)))
   \<and> (\<forall>ex v. snd (executeCommand w1 auth_list_command) = Some (Inr ex)
           \<and> status ex = Completed \<and> parse (concat (stdout ex)) = Some v
           \<and> (\<forall>accounts. v \<noteq> JArray accounts) \<longrightarrow>
         getAuthenticationStatus parse now w1 w2 = Some (Inr (not_authenticated now)))
   \<and> (\<forall>ex accounts r. snd (executeCommand w1 auth_list_command) = Some (Inr ex)
           \<and> status ex = Completed \<and> parse (concat (stdout ex)) = Some (JArray accounts)
           \<and> JNull \<in> set accounts
           \<and> snd (executeCommand w2 project_command) = Some r \<longrightarrow>
         getAuthenticationStatus parse now w1 w2 = Some (Inr (not_authenticated now)))
   \<and> (\<forall>ex accounts err. snd (executeCommand w1 auth_list_command) = Some (Inr ex)
           \<and> status ex = Completed \<and> parse (concat (stdout ex)) = Some (JArray accounts)
           \<and> snd (executeCommand w2 project_command) = Some (Inl err) \<longrightarrow>
         getAuthenticationStatus parse now w1 w2 = Some (Inr (not_authenticated now)))
   \<and> (\<forall>ex accounts pe.
         snd (executeCommand w1 auth_list_command) = Some (Inr ex)
           \<and> status ex = Completed \<and> parse (concat (stdout ex)) = Some (JArray accounts)
           \<and> JNull \<notin> set accounts
           \<and> snd (executeCommand w2 project_command) = Some (Inr pe) \<longrightarrow>
         getAuthenticationStatus parse now w1 w2 =
           Some (Inr \<lparr>isAuthenticated = (accounts \<noteq> []),
                      activeAccount =
                        (case List.find (\<lambda>acc. prop_of acc ''status'' = Some (JString ''ACTIVE''))
                                accounts of
                           None \<Rightarrow> None
                         | Some acc \<Rightarrow> prop_of acc ''account''),
                      availableAccounts = map (\<lambda>acc. prop_of acc ''account'') accounts,
                      defaultProject =
                        (if status pe = Completed
                         then (case parse (concat (stdout pe)) of
                                 None \<Rightarrow> None
                               | Some v \<Rightarrow> if v = JString ''(unset)'' then None else Some v)
                         else None),
                      lastChecked = now\<rparr>))"
proof (intro conjI allI impI)
  fix e
  show "getAuthenticationStatus parse now w1 w2 \<noteq> Some (Inl e)"
    by (simp add: getAuthenticationStatus_def split: option.splits sum.splits)
next
  fix err
  assume "snd (executeCommand w1 auth_list_command) = Some (Inl err)"
  then show "getAuthenticationStatus parse now w1 w2 = Some (Inr (not_authenticated now))"
    by (simp add: getAuthenticationStatus_def probe_body_def)
next
  fix ex
  assume "snd (executeCommand w1 auth_list_command) = Some (Inr ex)
           \<and> (status ex \<noteq> Completed \<or> parse (concat (stdout ex)) = None)"
  then show "getAuthenticationStatus parse now w1 w2 = Some (Inr (not_authenticated now))"
    by (auto simp: getAuthenticationStatus_def probe_body_def)
next
  fix ex v
  assume a: "snd (executeCommand w1 auth_list_command) = Some (Inr ex)
           \<and> status ex = Completed \<and> parse (concat (stdout ex)) = Some v
           \<and> (\<forall>accounts. v \<noteq> JArray accounts)"
  then have "probe_body parse now w1 w2 = Some (Inl TypeError)"
    by (cases v) (simp_all add: probe_body_def)
  then show "getAuthenticationStatus parse now w1 w2 = Some (Inr (not_authenticated now))"
    by (simp add: getAuthenticationStatus_def)
next
  fix ex accounts r
  assume a: "snd (executeCommand w1 auth_list_command) = Some (Inr ex)
           \<and> status ex = Completed \<and> parse (concat (stdout ex)) = Some (JArray accounts)
           \<and> JNull \<in> set accounts
           \<and> snd (executeCommand w2 project_command) = Some r"
  then have m: "map_account accounts = Inl TypeError"
    by (simp add: map_account_null)
  have "\<exists>e. probe_body parse now w1 w2 = Some (Inl e)"
  proof (cases "find_active accounts")
    case (Inl e)
    with a show ?thesis by (simp add: probe_body_def)
  next
    case (Inr found)
    have act: "\<exists>active. (case found of None \<Rightarrow> Inr None | Some acc \<Rightarrow> get_prop acc ''account'')
                 = (Inr active :: exn + json option)"
    proof (cases found)
      case None
      then show ?thesis by simp
    next
      case (Some acc)
      with Inr have "acc \<noteq> JNull" by (simp add: find_active_found)
      with Some show ?thesis by (simp add: get_prop_not_null)
    qed
    then obtain active where
      "(case found of None \<Rightarrow> Inr None | Some acc \<Rightarrow> get_prop acc ''account'')
         = (Inr active :: exn + json option)" by blast
    with a Inr m show ?thesis
      by (cases r) (simp_all add: probe_body_def)
  qed
  then show "getAuthenticationStatus parse now w1 w2 = Some (Inr (not_authenticated now))"
    by (auto simp: getAuthenticationStatus_def)
next
  fix ex accounts err
  assume "snd (executeCommand w1 auth_list_command) = Some (Inr ex)
           \<and> status ex = Completed \<and> parse (concat (stdout ex)) = Some (JArray accounts)
           \<and> snd (executeCommand w2 project_command) = Some (Inl err)"
  then show "getAuthenticationStatus parse now w1 w2 = Some (Inr (not_authenticated now))"
    by (auto simp: getAuthenticationStatus_def probe_body_def split: sum.splits option.splits)
next
  fix ex accounts pe
  let ?found = "List.find (\<lambda>acc. prop_of acc ''status'' = Some (JString ''ACTIVE'')) accounts"
  assume a: "snd (executeCommand w1 auth_list_command) = Some (Inr ex)
           \<and> status ex = Completed \<and> parse (concat (stdout ex)) = Some (JArray accounts)
           \<and> JNull \<notin> set accounts
           \<and> snd (executeCommand w2 project_command) = Some (Inr pe)"
  then have fa: "find_active accounts = Inr ?found"
    and ma: "map_account accounts = Inr (map (\<lambda>acc. prop_of acc ''account'') accounts)"
    by (simp_all add: find_active_not_null map_account_not_null)
  have act: "(case ?found of None \<Rightarrow> Inr None | Some acc \<Rightarrow> get_prop acc ''account'')
               = (Inr (case ?found of None \<Rightarrow> None | Some acc \<Rightarrow> prop_of acc ''account'')
                  :: exn + json option)"
  proof (cases ?found)
    case None
    then show ?thesis by simp
  next
    case (Some acc)
    with fa have "acc \<noteq> JNull" by (simp add: find_active_found)
    with Some show ?thesis by (simp add: get_prop_not_null)
  qed
  show "getAuthenticationStatus parse now w1 w2 =
           Some (Inr \<lparr>isAuthenticated = (accounts \<noteq> []),
                      activeAccount =
                        (case ?found of None \<Rightarrow> None | Some acc \<Rightarrow> prop_of acc ''account''),
                      availableAccounts = map (\<lambda>acc. prop_of acc ''account'') accounts,
                      defaultProject =
                        (if status pe = Completed
                         then (case parse (concat (stdout pe)) of
                                 None \<Rightarrow> None
                               | Some v \<Rightarrow> if v = JString ''(unset)'' then None else Some v)
                         else None),
                      lastChecked = now\<rparr>)"
    using a by (simp add: getAuthenticationStatus_def probe_body_def fa ma act read_project_def)
qed

theorem probe_degrades_witness:
  "getAuthenticationStatus example_parse 20 timeout_world accounts_world
     = Some (Inr (not_authenticated 20))
   \<and> getAuthenticationStatus example_parse 20 failing_world accounts_world
     = Some (Inr (not_authenticated 20))
   \<and> getAuthenticationStatus example_parse 20 null_world accounts_world
     = Some (Inr (not_authenticated 20))
   \<and> getAuthenticationStatus example_parse 20 null_entry_world failing_world
     = Some (Inr (not_authenticated 20))
   \<and> getAuthenticationStatus example_parse 20 accounts_world timeout_world
     = Some (Inr (not_authenticated 20))
   \<and> getAuthenticationStatus example_parse 20 accounts_world failing_world =
       Some (Inr \<lparr>isAuthenticated = True,
                  activeAccount = Some (JString ''dev@example.com''),
                  availableAccounts = [Some (JString ''dev@example.com'')],
                  defaultProject = None, lastChecked = 20\<rparr>)"
proof -
  let ?accounts = "[JObject [(''account'', JString ''dev@example.com''),
                             (''status'', JString ''ACTIVE'')]]"
  from example_runs(4) obtain err1 where
    t1: "snd (executeCommand timeout_world auth_list_command) = Some (Inl err1)"
    by blast
  from example_runs(5) obtain err2 where
    t2: "snd (executeCommand timeout_world project_command) = Some (Inl err2)"
    by blast
  from example_runs(2) obtain ex1 where
    f1: "snd (executeCommand failing_world auth_list_command) = Some (Inr ex1)"
        "status ex1 \<noteq> Completed"
    by auto
  from example_runs(3) obtain pe where
    f2: "snd (executeCommand failing_world project_command) = Some (Inr pe)"
        "status pe \<noteq> Completed"
    by auto
  from example_runs(1) obtain ex2 where
    a1: "snd (executeCommand accounts_world auth_list_command) = Some (Inr ex2)"
        "status ex2 = Completed" "stdout ex2 = [accounts_json]"
    by blast
  from example_runs(6) obtain ex3 where
    n1: "snd (executeCommand null_world auth_list_command) = Some (Inr ex3)"
        "status ex3 = Completed" "stdout ex3 = [''null'']"
    by blast
  from example_runs(7) obtain ex4 where
    n2: "snd (executeCommand null_entry_world auth_list_command) = Some (Inr ex4)"
        "status ex4 = Completed" "stdout ex4 = [''[null]'']"
    by blast
  have p2: "example_parse (concat (stdout ex2)) = Some (JArray ?accounts)"
    by (simp add: a1(3) example_parse_def)
  have p3: "example_parse (concat (stdout ex3)) = Some JNull"
    by (simp add: n1(3) example_parse_def accounts_json_def)
  have p4: "example_parse (concat (stdout ex4)) = Some (JArray [JNull])"
    by (simp add: n2(3) example_parse_def accounts_json_def)
  have nn: "JNull \<notin> set ?accounts" and isn: "JNull \<in> set [JNull]"
   and na: "\<forall>accounts. JNull \<noteq> JArray accounts"
    by simp_all
  from probe_degrades [of example_parse 20 timeout_world accounts_world] t1
  have r1: "getAuthenticationStatus example_parse 20 timeout_world accounts_world
              = Some (Inr (not_authenticated 20))"
    by blast
  from probe_degrades [of example_parse 20 failing_world accounts_world] f1
  have r2: "getAuthenticationStatus example_parse 20 failing_world accounts_world
              = Some (Inr (not_authenticated 20))"
    by blast
  from probe_degrades [of example_parse 20 null_world accounts_world] n1(1,2) p3 na
  have r3: "getAuthenticationStatus example_parse 20 null_world accounts_world
              = Some (Inr (not_authenticated 20))"
    by blast
  from probe_degrades [of example_parse 20 null_entry_world failing_world] n2(1,2) p4 isn f2(1)
  have r4: "getAuthenticationStatus example_parse 20 null_entry_world failing_world
              = Some (Inr (not_authenticated 20))"
    by blast
  from probe_degrades [of example_parse 20 accounts_world timeout_world] a1(1,2) p2 t2
  have r5: "getAuthenticationStatus example_parse 20 accounts_world timeout_world
              = Some (Inr (not_authenticated 20))"
    by blast
  from probe_degrades [of example_parse 20 accounts_world failing_world] a1(1,2) p2 nn f2(1)
  have "getAuthenticationStatus example_parse 20 accounts_world failing_world =
           Some (Inr \<lparr>isAuthenticated = (?accounts \<noteq> []),
                      activeAccount =
                        (case List.find (\<lambda>acc. prop_of acc ''status'' = Some (JString ''ACTIVE''))
                                ?accounts of
                           None \<Rightarrow> None
                         | Some acc \<Rightarrow> prop_of acc ''account''),
                      availableAccounts = map (\<lambda>acc. prop_of acc ''account'') ?accounts,
                      defaultProject =
                        (if status pe = Completed
                         then (case example_parse (concat (stdout pe)) of
                                 None \<Rightarrow> None
                               | Some v \<Rightarrow> if v = JString ''(unset)'' then None else Some v)
                         else None),
                      lastChecked = 20\<rparr>)"
    by blast
  then have r6: "getAuthenticationStatus example_parse 20 accounts_world failing_world =
       Some (Inr \<lparr>isAuthenticated = True,
                  activeAccount = Some (JString ''dev@example.com''),
                  availableAccounts = [Some (JString ''dev@example.com'')],
                  defaultProject = None, lastChecked = 20\<rparr>)"
    by (simp add: f2(2))
  from r1 r2 r3 r4 r5 r6 show ?thesis by blast
qed

text \<open>
  The claim as the specification words it, that a failure of either step gives the
  not-authenticated snapshot, fails for the second step: the credential list is read,
  the project command exits with code 1, and the probe reports an authenticated status
  with the account and without a project.
\<close>

theorem probe_partial_result:
  "map_option (map_sum message status) (snd (executeCommand failing_world project_command))
     = Some (Inr Failed)
   \<and> getAuthenticationStatus example_parse 20 accounts_world failing_world =
       Some (Inr \<lparr>isAuthenticated = True,
                  activeAccount = Some (JString ''dev@example.com''),
                  availableAccounts = [Some (JString ''dev@example.com'')],
                  defaultProject = None, lastChecked = 20\<rparr>)"
proof -
  from example_runs(1) obtain ex where
    ex: "snd (executeCommand accounts_world auth_list_command) = Some (Inr ex)"
        "status ex = Completed" "stdout ex = [accounts_json]" by blast
  from example_runs(3) obtain pe where
    pe: "snd (executeCommand failing_world project_command) = Some (Inr pe)"
        "status pe = Failed" by blast
  show ?thesis
    by (simp add: getAuthenticationStatus_def probe_body_def ex pe example_parse_def
          read_project_def)
qed

section \<open>Cancelling a finished execution\<close>

text \<open>
  Claim C7. For every execution record whose status is already terminal (\<open>Completed\<close>,
  \<open>Failed\<close> or \<open>Cancelled\<close>), \<^verbatim>\<open>cancelExecution\<close> returns \<^verbatim>\<open>false\<close> and leaves every
  field of the record as it was, whatever the time of the call and whether or not a
  signal could be delivered; any number of such calls, one after the other, leaves the
  record unchanged too. No branch of the function raises.
\<close>

theorem cancelExecution_terminal_noop:
  assumes "is_terminal (status e)"
  shows "cancelExecution now killOk e = (False, e)
       \<and> foldl (\<lambda>x call. snd (cancelExecution (fst call) (snd call) x)) e calls = e"
proof -
  have one: "cancelExecution t k e = (False, e)" for t k
    using assms by (auto simp: cancelExecution_def is_terminal_def)
  have "foldl (\<lambda>x call. snd (cancelExecution (fst call) (snd call) x)) e calls = e"
    by (induction calls) (simp_all add: one)
  with one show ?thesis by simp
qed

theorem cancelExecution_terminal_noop_witness:
  "is_terminal (status example_completed)
   \<and> cancelExecution 9 True example_completed = (False, example_completed)
   \<and> foldl (\<lambda>x call. snd (cancelExecution (fst call) (snd call) x)) example_completed
        [(9, True), (11, True)] = example_completed"
proof -
  have t: "is_terminal (status example_completed)"
    by (simp add: is_terminal_def example_completed_def)
  from cancelExecution_terminal_noop [OF t, of 9 True "[(9, True), (11, True)]"] t
  show ?thesis by blast
qed

section \<open>The status after it became terminal\<close>

text \<open>
  Claim C8. Every execution has one terminal state, reached once: after the status
  field got a terminal value, no later event assigns it again. The code keeps this on
  the cancellation path and breaks it on the time-out path. With a time-out of 10 ms,
  the timer expires and its handler sets \<open>Failed\<close>; the process, told to terminate,
  exits with code 0, and the \<^verbatim>\<open>close\<close> handler, which finds the \<open>cancelled\<close> flag
  unset, sets \<open>Completed\<close>. After \<^verbatim>\<open>cancelExecution\<close> set \<open>Cancelled\<close>, the same
  \<^verbatim>\<open>close\<close> event leaves the status \<open>Cancelled\<close>, because the handler tests the flag
  first.
\<close>

theorem status_reassigned_after_terminal:
  "status (exec (run_events ''10'' example_running [(10, TimeoutFired)])) = Failed
   \<and> status (exec (run_events ''10'' example_running race_events)) = Completed
   \<and> status (exec (run_events ''10'' example_running [(10, CancelCall True)])) = Cancelled
   \<and> status (exec (run_events ''10'' example_running
                     [(10, CancelCall True), (11, Close (Some 0))])) = Cancelled"
  by code_simp

section \<open>The check of the command prefix\<close>

text \<open>
  Claim C9. For every command whose string does not start with \<^verbatim>\<open>"gcloud "\<close>,
  \<^verbatim>\<open>executeCommand\<close> throws the \<^verbatim>\<open>GCloudError\<close> \<^verbatim>\<open>Command must start with "gcloud"\<close>
  and has made no call to the operating system by then: no availability check, no
  look-up of the working directory, no spawn.
\<close>

theorem executeCommand_rejects_prefix:
  assumes "\<not> startsWith (command c) ''gcloud ''"
  shows \<open>executeCommand w c = ([], Some (Inl (plain_error ''Command must start with "gcloud"'')))\<close>
  using assms by (simp add: executeCommand_def)

theorem executeCommand_rejects_prefix_witness:
  \<open>\<not> startsWith (command (example_command\<lparr>command := ''projects list''\<rparr>)) ''gcloud ''
   \<and> executeCommand example_world (example_command\<lparr>command := ''projects list''\<rparr>)
       = ([], Some (Inl (plain_error ''Command must start with "gcloud"'')))\<close>
proof -
  have h: "\<not> startsWith (command (example_command\<lparr>command := ''projects list''\<rparr>)) ''gcloud ''"
    by simp
  from executeCommand_rejects_prefix [OF h, of example_world] h show ?thesis by simp
qed

section \<open>A close event without an exit code\<close>

text \<open>
  Claim C10. When the \<^verbatim>\<open>close\<close> event of the child process reports the exit code
  \<^verbatim>\<open>null\<close> (as after a signal) and the execution was not cancelled, the handler
  records the exit code 0 and the status \<open>Failed\<close>, not \<open>Completed\<close>; and when the
  promise is still pending and stderr has no authentication marker, this record is
  what the caller receives. So an exit code 0 in an execution record does not mean
  that the execution completed.
\<close>

theorem close_null_code_failed_with_zero:
  assumes "\<not> cancelled (exec s)"
  shows "exitCode (exec (step shown s (now, Close None))) = Some 0
       \<and> status (exec (step shown s (now, Close None))) = Failed
       \<and> status (exec (step shown s (now, Close None))) \<noteq> Completed
       \<and> (settled s = None \<and> \<not> checkForAuthError (stderr (exec s)) \<longrightarrow>
            settled (step shown s (now, Close None))
              = Some (Inr (exec (step shown s (now, Close None)))))"
  using assms by (simp add: settle_def Let_def split: option.splits)

theorem close_null_code_failed_with_zero_witness:
  "\<not> cancelled (exec example_running)
   \<and> settled example_running = None
   \<and> \<not> checkForAuthError (stderr (exec example_running))
   \<and> exitCode (exec (step ''10'' example_running (3, Close None))) = Some 0
   \<and> status (exec (step ''10'' example_running (3, Close None))) = Failed
   \<and> settled (step ''10'' example_running (3, Close None))
       = Some (Inr (exec (step ''10'' example_running (3, Close None))))"
proof -
  have h: "\<not> cancelled (exec example_running)"
   and p: "settled example_running = None"
   and n: "\<not> checkForAuthError (stderr (exec example_running))"
    by (simp_all add: example_running_def spawned_def new_execution_def checkForAuthError_def)
  from close_null_code_failed_with_zero [OF h, of "''10''" 3] h p n show ?thesis
    by (simp del: step.simps)
qed

end
